theory Spec2Isabelle
  imports Main "HOL-Library.AList" "HOL-Library.Sublist" "HOL-Library.Word"
begin

section \<open>Python values and documents\<close>

text \<open>
  The module \<^verbatim>\<open>mbtest/imposters/responses.py\<close> maps response objects to and from
  \<^verbatim>\<open>JsonStructure\<close> documents. A document and every value stored in a field of a
  response object is a Python value of one of the JSON kinds: \<^verbatim>\<open>None\<close>, a boolean, an
  integer, a string, a list, or a dict with string keys. A dict is an association list in
  insertion order whose first binding of a key is the one looked up; a dict literal is the
  list of its items and \<^verbatim>\<open>d[k] = v\<close> is \<open>AList.update\<close>, which keeps the position
  of a key already present and appends a new one, as Python does. Floating point numbers are
  not modelled.
\<close>

datatype pyval =
    PNone
  | PBool bool
  | PInt int
  | PStr string
  | PList "pyval list"
  | PDict "(string \<times> pyval) list"

type_synonym dict = "(string \<times> pyval) list"

text \<open>The exceptions the module can raise, directly or through a Python operator.\<close>

datatype error =
    KeyError pyval
  | TypeError
  | ValueError
  | AttributeError
  | UnicodeDecodeError
  | NotImplementedError

text \<open>Sequencing of steps that may raise: the first exception ends the computation.\<close>

definition and_then :: "error + 'a \<Rightarrow> ('a \<Rightarrow> error + 'b) \<Rightarrow> error + 'b" where
  "and_then m f = (case m of Inl e \<Rightarrow> Inl e | Inr x \<Rightarrow> f x)"

text \<open>A list comprehension \<^verbatim>\<open>[f(x) for x in xs]\<close> whose body may raise.\<close>

fun traverse :: "('a \<Rightarrow> error + 'b) \<Rightarrow> 'a list \<Rightarrow> error + 'b list" where
  "traverse f [] = Inr []"
| "traverse f (x # xs) =
     and_then (f x) (\<lambda>y. and_then (traverse f xs) (\<lambda>ys. Inr (y # ys)))"

text \<open>Python truthiness: \<^verbatim>\<open>bool(v)\<close>.\<close>

fun truthy :: "pyval \<Rightarrow> bool" where
  "truthy PNone = False"
| "truthy (PBool b) = b"
| "truthy (PInt i) = (i \<noteq> 0)"
| "truthy (PStr s) = (s \<noteq> [])"
| "truthy (PList xs) = (xs \<noteq> [])"
| "truthy (PDict d) = (d \<noteq> [])"

text \<open>
  \<^verbatim>\<open>k in v\<close> for a string \<open>k\<close>: key membership in a dict, element membership in a list,
  substring test in a string; \<^verbatim>\<open>None\<close>, booleans and integers are not containers and the
  test raises \<^verbatim>\<open>TypeError\<close>.
\<close>

fun py_contains :: "string \<Rightarrow> pyval \<Rightarrow> error + bool" where
  "py_contains k (PDict d) = Inr (map_of d k \<noteq> None)"
| "py_contains k (PList xs) = Inr (List.member xs (PStr k))"
| "py_contains k (PStr s) = Inr (sublist k s)"
| "py_contains k PNone = Inl TypeError"
| "py_contains k (PBool b) = Inl TypeError"
| "py_contains k (PInt i) = Inl TypeError"

text \<open>
  \<^verbatim>\<open>v[k]\<close> for a string \<open>k\<close>: a dict raises \<^verbatim>\<open>KeyError\<close> on a missing key; a list or a
  string takes integer indices only, the other values are not subscriptable.
\<close>

fun py_getitem :: "pyval \<Rightarrow> string \<Rightarrow> error + pyval" where
  "py_getitem (PDict d) k = (case map_of d k of None \<Rightarrow> Inl (KeyError (PStr k)) | Some v \<Rightarrow> Inr v)"
| "py_getitem (PList xs) k = Inl TypeError"
| "py_getitem (PStr s) k = Inl TypeError"
| "py_getitem PNone k = Inl TypeError"
| "py_getitem (PBool b) k = Inl TypeError"
| "py_getitem (PInt i) k = Inl TypeError"

text \<open>\<^verbatim>\<open>v.get(k, default)\<close>: only a dict has the method.\<close>

fun py_get :: "pyval \<Rightarrow> string \<Rightarrow> pyval \<Rightarrow> error + pyval" where
  "py_get (PDict d) k dflt = Inr (case map_of d k of None \<Rightarrow> dflt | Some v \<Rightarrow> v)"
| "py_get (PList xs) k dflt = Inl AttributeError"
| "py_get (PStr s) k dflt = Inl AttributeError"
| "py_get PNone k dflt = Inl AttributeError"
| "py_get (PBool b) k dflt = Inl AttributeError"
| "py_get (PInt i) k dflt = Inl AttributeError"

text \<open>
  \<^verbatim>\<open>for x in v\<close>: the elements of a list, the keys of a dict, the characters of a string.
\<close>

fun py_iter :: "pyval \<Rightarrow> error + pyval list" where
  "py_iter (PList xs) = Inr xs"
| "py_iter (PDict d) = Inr (map (\<lambda>kv. PStr (fst kv)) d)"
| "py_iter (PStr s) = Inr (map (\<lambda>c. PStr [c]) s)"
| "py_iter PNone = Inl TypeError"
| "py_iter (PBool b) = Inl TypeError"
| "py_iter (PInt i) = Inl TypeError"

text \<open>The value passed for a parameter that has a default: \<open>None\<close> is an omitted argument.\<close>

definition arg_or :: "'a option \<Rightarrow> 'a \<Rightarrow> 'a" where
  "arg_or a dflt = (case a of None \<Rightarrow> dflt | Some v \<Rightarrow> v)"

section \<open>What the module imports\<close>

text \<open>
  The classes \<^verbatim>\<open>Copy\<close> and \<^verbatim>\<open>Lookup\<close> (\<^verbatim>\<open>mbtest.imposters.behaviors\<close>), the
  enumeration \<^verbatim>\<open>Predicate.Operator\<close> (\<^verbatim>\<open>mbtest.imposters.predicates\<close>), the URL class
  \<^verbatim>\<open>furl\<close>, \<^verbatim>\<open>ElementTree.tostring\<close> and \<^verbatim>\<open>bytes.decode\<close> are used by the module and
  defined elsewhere. They are parameters of the model: \<open>'c\<close> and \<open>'l\<close> are the
  \<^verbatim>\<open>Copy\<close> and \<^verbatim>\<open>Lookup\<close> objects, \<open>'o\<close> the members of \<^verbatim>\<open>Predicate.Operator\<close>
  (\<open>Operator_members\<close> is the enumeration's table from member name to member), \<open>'u\<close> the
  \<^verbatim>\<open>furl\<close> objects and \<open>'x\<close> the XML elements.
\<close>

record ('c, 'l, 'o, 'u, 'x) externals =
  Copy_as_structure :: "'c \<Rightarrow> pyval"
  Copy_from_structure :: "pyval \<Rightarrow> error + 'c"
  Lookup_as_structure :: "'l \<Rightarrow> pyval"
  Lookup_from_structure :: "pyval \<Rightarrow> error + 'l"
  Operator_members :: "(string \<times> 'o) list"
  Operator_EQUALS :: "'o"
  furl :: "pyval \<Rightarrow> error + 'u"
  furl_url :: "'u \<Rightarrow> string"
  et_tostring :: "'x \<Rightarrow> string"
  bytes_decode :: "8 word list \<Rightarrow> error + string"

text \<open>
  \<^verbatim>\<open>Predicate.Operator[name]\<close>: lookup of a member by name. An unknown name raises
  \<^verbatim>\<open>KeyError\<close>; a list or a dict is unhashable and raises \<^verbatim>\<open>TypeError\<close>.
\<close>

definition Operator_getitem :: "('c, 'l, 'o, 'u, 'x) externals \<Rightarrow> pyval \<Rightarrow> error + 'o" where
  "Operator_getitem X v =
     (case v of
        PStr n \<Rightarrow> (case map_of (Operator_members X) n of
                     None \<Rightarrow> Inl (KeyError v)
                   | Some m \<Rightarrow> Inr m)
      | PList xs \<Rightarrow> Inl TypeError
      | PDict d \<Rightarrow> Inl TypeError
      | _ \<Rightarrow> Inl (KeyError v))"

section \<open>JsonSerializable helpers\<close>

text \<open>
  Modelled from the spec: the helper \<^verbatim>\<open>JsonSerializable._add_if_true\<close> of
  \<^verbatim>\<open>mbtest.imposters.base\<close> is not in the source tree; the specification describes it as
  "add key only if value is truthy".
\<close>

definition add_if_true :: "dict \<Rightarrow> string \<Rightarrow> pyval \<Rightarrow> dict" where
  "add_if_true dictionary key v = (if truthy v then AList.update key v dictionary else dictionary)"

text \<open>
  Modelled from the spec: the helper \<^verbatim>\<open>JsonSerializable._set_if_in_dict\<close> of
  \<^verbatim>\<open>mbtest.imposters.base\<close> is not in the source tree; the specification says that the
  behaviors block "optionally populates" the attribute: if the key is in the dictionary the
  attribute named is set to the value under the key. The attribute is given by its setter.
\<close>

definition set_if_in_dict :: "pyval \<Rightarrow> string \<Rightarrow> (pyval \<Rightarrow> 'r \<Rightarrow> 'r) \<Rightarrow> 'r \<Rightarrow> error + 'r" where
  "set_if_in_dict dictionary key setter self =
     and_then (py_contains key dictionary) (\<lambda>present.
       if present then and_then (py_getitem dictionary key) (\<lambda>v. Inr (setter v self))
       else Inr self)"

section \<open>PredicateGenerator\<close>

record 'o PredicateGenerator =
  pg_path :: pyval
  pg_query :: pyval
  pg_operator :: "'o"
  pg_case_sensitive :: pyval

text \<open>
  \<^verbatim>\<open>PredicateGenerator.__init__\<close>, with the defaults \<^verbatim>\<open>path=False\<close>, \<^verbatim>\<open>query=False\<close>,
  \<^verbatim>\<open>operator=Predicate.Operator.EQUALS\<close> and \<^verbatim>\<open>case_sensitive=True\<close>.
\<close>

definition PredicateGenerator_init ::
  "('c, 'l, 'o, 'u, 'x) externals \<Rightarrow> pyval option \<Rightarrow> pyval option \<Rightarrow> 'o option \<Rightarrow> pyval option
     \<Rightarrow> 'o PredicateGenerator" where
  "PredicateGenerator_init X path query operator case_sensitive =
     \<lparr> pg_path = arg_or path (PBool False),
       pg_query = arg_or query (PBool False),
       pg_operator = arg_or operator (Operator_EQUALS X),
       pg_case_sensitive = arg_or case_sensitive (PBool True) \<rparr>"

definition PredicateGenerator_as_structure :: "'o PredicateGenerator \<Rightarrow> pyval" where
  "PredicateGenerator_as_structure self =
     (let matches = [];
          matches = add_if_true matches ''path'' (pg_path self);
          matches = add_if_true matches ''query'' (pg_query self);
          predicate = [(''caseSensitive'', pg_case_sensitive self), (''matches'', PDict matches)]
      in PDict predicate)"

definition PredicateGenerator_from_structure ::
  "('c, 'l, 'o, 'u, 'x) externals \<Rightarrow> pyval \<Rightarrow> error + 'o PredicateGenerator" where
  "PredicateGenerator_from_structure X structure =
     and_then (py_getitem structure ''matches'') (\<lambda>m1.
     and_then (py_get m1 ''path'' PNone) (\<lambda>path.
     and_then (py_getitem structure ''matches'') (\<lambda>m2.
     and_then (py_get m2 ''query'' PNone) (\<lambda>query.
     and_then (py_contains ''operator'' structure) (\<lambda>has_operator.
     and_then (if has_operator
               then and_then (py_getitem structure ''operator'') (Operator_getitem X)
               else Inr (Operator_EQUALS X)) (\<lambda>operator.
     and_then (py_get structure ''caseSensitive'' (PBool False)) (\<lambda>case_sensitive.
     Inr (PredicateGenerator_init X (Some path) (Some query) (Some operator)
            (Some case_sensitive)))))))))"

section \<open>Proxy\<close>

datatype Proxy_Mode = ONCE | ALWAYS | TRANSPARENT

fun Proxy_Mode_value :: "Proxy_Mode \<Rightarrow> string" where
  "Proxy_Mode_value ONCE = ''proxyOnce''"
| "Proxy_Mode_value ALWAYS = ''proxyAlways''"
| "Proxy_Mode_value TRANSPARENT = ''proxyTransparent''"

text \<open>\<^verbatim>\<open>Proxy.Mode(v)\<close>: lookup of a member by value; no member raises \<^verbatim>\<open>ValueError\<close>.\<close>

definition Proxy_Mode_call :: "pyval \<Rightarrow> error + Proxy_Mode" where
  "Proxy_Mode_call v =
     (if v = PStr ''proxyOnce'' then Inr ONCE
      else if v = PStr ''proxyAlways'' then Inr ALWAYS
      else if v = PStr ''proxyTransparent'' then Inr TRANSPARENT
      else Inl ValueError)"

text \<open>The attribute \<^verbatim>\<open>to\<close> holds a \<^verbatim>\<open>furl\<close> object or any other value (a string).\<close>

datatype 'u to_value = Furl 'u | NotFurl pyval

text \<open>
  The attribute \<^verbatim>\<open>predicate_generators\<close> is \<open>None\<close> for Python's \<^verbatim>\<open>None\<close> and
  \<open>Some pgs\<close> for an iterable.
\<close>

record ('o, 'u) Proxy =
  p_to :: "'u to_value"
  p_wait :: pyval
  p_inject_headers :: pyval
  p_mode :: Proxy_Mode
  p_predicate_generators :: "'o PredicateGenerator list option"

text \<open>
  \<^verbatim>\<open>Proxy.__init__\<close>, with the defaults \<^verbatim>\<open>wait=None\<close>, \<^verbatim>\<open>inject_headers=None\<close>,
  \<^verbatim>\<open>mode=Mode.ONCE\<close> and \<^verbatim>\<open>predicate_generators=None\<close>.
\<close>

definition Proxy_init ::
  "'u to_value \<Rightarrow> pyval option \<Rightarrow> pyval option \<Rightarrow> Proxy_Mode option
     \<Rightarrow> 'o PredicateGenerator list option option \<Rightarrow> ('o, 'u) Proxy" where
  "Proxy_init to wait inject_headers mode predicate_generators =
     \<lparr> p_to = to,
       p_wait = arg_or wait PNone,
       p_inject_headers = arg_or inject_headers PNone,
       p_mode = arg_or mode ONCE,
       p_predicate_generators =
         (let predicate_generators = arg_or predicate_generators None
          in if predicate_generators \<noteq> None then predicate_generators else Some []) \<rparr>"

definition Proxy_as_structure ::
  "('c, 'l, 'o, 'u, 'x) externals \<Rightarrow> ('o, 'u) Proxy \<Rightarrow> error + pyval" where
  "Proxy_as_structure X self =
     (let proxy = [(''to'', (case p_to self of Furl u \<Rightarrow> PStr (furl_url X u) | NotFurl v \<Rightarrow> v)),
                   (''mode'', PStr (Proxy_Mode_value (p_mode self)))];
          proxy = add_if_true proxy ''injectHeaders'' (p_inject_headers self)
      in and_then (case p_predicate_generators self of
                     None \<Rightarrow> Inl TypeError
                   | Some pgs \<Rightarrow> Inr (map PredicateGenerator_as_structure pgs)) (\<lambda>pgs.
         let proxy = add_if_true proxy ''predicateGenerators'' (PList pgs);
             response = [(''proxy'', PDict proxy)];
             response = (if truthy (p_wait self)
                         then AList.update ''_behaviors'' (PDict [(''wait'', p_wait self)]) response
                         else response)
         in Inr (PDict response)))"

definition Proxy_from_structure ::
  "('c, 'l, 'o, 'u, 'x) externals \<Rightarrow> pyval \<Rightarrow> error + ('o, 'u) Proxy" where
  "Proxy_from_structure X structure =
     and_then (py_getitem structure ''proxy'') (\<lambda>proxy_structure.
     and_then (py_getitem proxy_structure ''to'') (\<lambda>to_v.
     and_then (furl X to_v) (\<lambda>to.
     and_then (py_contains ''injectHeaders'' proxy_structure) (\<lambda>has_inject_headers.
     and_then (if has_inject_headers then py_getitem proxy_structure ''injectHeaders''
               else Inr PNone) (\<lambda>inject_headers.
     and_then (py_getitem proxy_structure ''mode'') (\<lambda>mode_v.
     and_then (Proxy_Mode_call mode_v) (\<lambda>mode.
     and_then (py_contains ''predicateGenerators'' proxy_structure) (\<lambda>has_predicate_generators.
     and_then (if has_predicate_generators
               then and_then (py_getitem proxy_structure ''predicateGenerators'') (\<lambda>pgs_v.
                    and_then (py_iter pgs_v) (\<lambda>pgs.
                    and_then (traverse (PredicateGenerator_from_structure X) pgs) (\<lambda>pgs.
                    Inr (Some pgs))))
               else Inr None) (\<lambda>predicate_generators.
     let proxy = Proxy_init (Furl to) None (Some inject_headers) (Some mode)
                   (Some predicate_generators)
     in and_then (py_get structure ''_behaviors'' (PDict [])) (\<lambda>behaviors.
        and_then (py_get behaviors ''wait'' PNone) (\<lambda>wait.
        Inr (if truthy wait then proxy\<lparr>p_wait := wait\<rparr> else proxy))))))))))))"

section \<open>Response\<close>

datatype Response_Mode = TEXT | BINARY

fun Response_Mode_value :: "Response_Mode \<Rightarrow> string" where
  "Response_Mode_value TEXT = ''text''"
| "Response_Mode_value BINARY = ''binary''"

text \<open>\<^verbatim>\<open>Response.Mode(v)\<close>: lookup of a member by value; no member raises \<^verbatim>\<open>ValueError\<close>.\<close>

definition Response_Mode_call :: "pyval \<Rightarrow> error + Response_Mode" where
  "Response_Mode_call v =
     (if v = PStr ''text'' then Inr TEXT
      else if v = PStr ''binary'' then Inr BINARY
      else Inl ValueError)"

text \<open>
  The attribute \<^verbatim>\<open>_body\<close> holds an XML element, a byte string or any other value (a
  string or a JSON structure).
\<close>

datatype 'x body_value = Element 'x | Bytes "8 word list" | Other pyval

text \<open>
  An argument \<^verbatim>\<open>copy\<close> or \<^verbatim>\<open>lookup\<close> of the constructor: \<^verbatim>\<open>None\<close>, one object, or a
  sequence of objects. A \<^verbatim>\<open>Copy\<close> or \<^verbatim>\<open>Lookup\<close> object is truthy, as every Python object
  without \<^verbatim>\<open>__bool__\<close> and \<^verbatim>\<open>__len__\<close> is.
\<close>

datatype 'a one_or_many = NoneArg | Single 'a | Many "'a list"

definition normalize :: "'a one_or_many \<Rightarrow> 'a list option" where
  "normalize a = (case a of Many xs \<Rightarrow> Some xs | Single x \<Rightarrow> Some [x] | NoneArg \<Rightarrow> None)"

text \<open>Truthiness of an attribute that holds \<^verbatim>\<open>None\<close> or a list of objects.\<close>

definition truthy_list :: "'a list option \<Rightarrow> bool" where
  "truthy_list a = (case a of None \<Rightarrow> False | Some xs \<Rightarrow> xs \<noteq> [])"

record ('c, 'l, 'x) Response =
  r_body :: "'x body_value"
  r_status_code :: pyval
  r_wait :: pyval
  r_repeat :: pyval
  r_headers :: pyval
  r_mode :: Response_Mode
  r_copy :: "'c list option"
  r_decorate :: pyval
  r_lookup :: "'l list option"
  r_shell_transform :: pyval

text \<open>
  \<^verbatim>\<open>Response.__init__\<close>, with the defaults \<^verbatim>\<open>body=""\<close>, \<^verbatim>\<open>status_code=200\<close> and
  \<^verbatim>\<open>None\<close> for every other parameter. The argument \<^verbatim>\<open>mode\<close> is a member of
  \<^verbatim>\<open>Response.Mode\<close> (\<open>Inl\<close>) or any other value (\<open>Inr\<close>).
\<close>

definition Response_init ::
  "'x body_value option \<Rightarrow> pyval option \<Rightarrow> pyval option \<Rightarrow> pyval option \<Rightarrow> pyval option
     \<Rightarrow> (Response_Mode + pyval) option \<Rightarrow> 'c one_or_many option \<Rightarrow> pyval option
     \<Rightarrow> 'l one_or_many option \<Rightarrow> pyval option \<Rightarrow> error + ('c, 'l, 'x) Response" where
  "Response_init body status_code wait repeat headers mode copy decorate lookup shell_transform =
     and_then (case arg_or mode (Inr PNone) of
                 Inl m \<Rightarrow> Inr m
               | Inr v \<Rightarrow> if truthy v then Response_Mode_call v else Inr TEXT) (\<lambda>mode.
     Inr \<lparr> r_body = arg_or body (Other (PStr [])),
           r_status_code = arg_or status_code (PInt 200),
           r_wait = arg_or wait PNone,
           r_repeat = arg_or repeat PNone,
           r_headers = arg_or headers PNone,
           r_mode = mode,
           r_copy = normalize (arg_or copy NoneArg),
           r_decorate = arg_or decorate PNone,
           r_lookup = normalize (arg_or lookup NoneArg),
           r_shell_transform = arg_or shell_transform PNone \<rparr>)"

text \<open>The property \<^verbatim>\<open>Response.body\<close>.\<close>

definition Response_body ::
  "('c, 'l, 'o, 'u, 'x) externals \<Rightarrow> ('c, 'l, 'x) Response \<Rightarrow> error + pyval" where
  "Response_body X self =
     (case r_body self of
        Element e \<Rightarrow> Inr (PStr (et_tostring X e))
      | Bytes b \<Rightarrow> and_then (bytes_decode X b) (\<lambda>s. Inr (PStr s))
      | Other v \<Rightarrow> Inr v)"

definition Response_is_structure ::
  "('c, 'l, 'o, 'u, 'x) externals \<Rightarrow> ('c, 'l, 'x) Response \<Rightarrow> error + pyval" where
  "Response_is_structure X self =
     (let is_structure = [(''statusCode'', r_status_code self),
                          (''_mode'', PStr (Response_Mode_value (r_mode self)))]
      in and_then (Response_body X self) (\<lambda>body.
         let is_structure = add_if_true is_structure ''body'' body;
             is_structure = add_if_true is_structure ''headers'' (r_headers self)
         in Inr (PDict is_structure)))"

definition Response_behaviors_structure ::
  "('c, 'l, 'o, 'u, 'x) externals \<Rightarrow> ('c, 'l, 'x) Response \<Rightarrow> pyval" where
  "Response_behaviors_structure X self =
     (let behaviors = [];
          behaviors = add_if_true behaviors ''wait'' (r_wait self);
          behaviors = add_if_true behaviors ''repeat'' (r_repeat self);
          behaviors = add_if_true behaviors ''decorate'' (r_decorate self);
          behaviors = add_if_true behaviors ''shellTransform'' (r_shell_transform self);
          behaviors = (if truthy_list (r_copy self)
                       then AList.update ''copy''
                              (PList (map (Copy_as_structure X) (the (r_copy self)))) behaviors
                       else behaviors);
          behaviors = (if truthy_list (r_lookup self)
                       then AList.update ''lookup''
                              (PList (map (Lookup_as_structure X) (the (r_lookup self)))) behaviors
                       else behaviors)
      in PDict behaviors)"

definition Response_as_structure ::
  "('c, 'l, 'o, 'u, 'x) externals \<Rightarrow> ('c, 'l, 'x) Response \<Rightarrow> error + pyval" where
  "Response_as_structure X self =
     and_then (Response_is_structure X self) (\<lambda>is_structure.
     Inr (PDict [(''is'', is_structure),
                 (''_behaviors'', Response_behaviors_structure X self)]))"

definition Response_fields_from_structure ::
  "pyval \<Rightarrow> ('c, 'l, 'x) Response \<Rightarrow> error + ('c, 'l, 'x) Response" where
  "Response_fields_from_structure structure self =
     and_then (py_getitem structure ''is'') (\<lambda>inner.
     and_then (py_contains ''body'' inner) (\<lambda>has_body.
     and_then (if has_body
               then and_then (py_getitem inner ''body'') (\<lambda>v. Inr (self\<lparr>r_body := Other v\<rparr>))
               else Inr self) (\<lambda>self.
     and_then (py_getitem inner ''_mode'') (\<lambda>mode_v.
     and_then (Response_Mode_call mode_v) (\<lambda>mode.
     let self = self\<lparr>r_mode := mode\<rparr>
     in and_then (py_contains ''headers'' inner) (\<lambda>has_headers.
        and_then (if has_headers
                  then and_then (py_getitem inner ''headers'') (\<lambda>v. Inr (self\<lparr>r_headers := v\<rparr>))
                  else Inr self) (\<lambda>self.
        and_then (py_contains ''statusCode'' inner) (\<lambda>has_status_code.
        if has_status_code
        then and_then (py_getitem inner ''statusCode'') (\<lambda>v. Inr (self\<lparr>r_status_code := v\<rparr>))
        else Inr self))))))))"

definition Response_from_structure ::
  "('c, 'l, 'o, 'u, 'x) externals \<Rightarrow> pyval \<Rightarrow> error + ('c, 'l, 'x) Response" where
  "Response_from_structure X structure =
     and_then (Response_init None None None None None None None None None None) (\<lambda>response.
     and_then (Response_fields_from_structure structure response) (\<lambda>response.
     and_then (py_get structure ''_behaviors'' (PDict [])) (\<lambda>behaviors.
     and_then (set_if_in_dict behaviors ''wait'' (\<lambda>v r. r\<lparr>r_wait := v\<rparr>) response) (\<lambda>response.
     and_then (set_if_in_dict behaviors ''repeat'' (\<lambda>v r. r\<lparr>r_repeat := v\<rparr>) response) (\<lambda>response.
     and_then (set_if_in_dict behaviors ''decorate'' (\<lambda>v r. r\<lparr>r_decorate := v\<rparr>) response) (\<lambda>response.
     and_then (set_if_in_dict behaviors ''shellTransform'' (\<lambda>v r. r\<lparr>r_shell_transform := v\<rparr>)
                 response) (\<lambda>response.
     and_then (py_contains ''copy'' behaviors) (\<lambda>has_copy.
     and_then (if has_copy
               then and_then (py_getitem behaviors ''copy'') (\<lambda>cs_v.
                    and_then (py_iter cs_v) (\<lambda>cs.
                    and_then (traverse (Copy_from_structure X) cs) (\<lambda>cs.
                    Inr (response\<lparr>r_copy := Some cs\<rparr>))))
               else Inr response) (\<lambda>response.
     and_then (py_contains ''lookup'' behaviors) (\<lambda>has_lookup.
     if has_lookup
     then and_then (py_getitem behaviors ''lookup'') (\<lambda>ls_v.
          and_then (py_iter ls_v) (\<lambda>ls.
          and_then (traverse (Lookup_from_structure X) ls) (\<lambda>ls.
          Inr (response\<lparr>r_lookup := Some ls\<rparr>))))
     else Inr response))))))))))"

section \<open>TcpResponse and InjectionResponse\<close>

record TcpResponse =
  t_data :: pyval

definition TcpResponse_as_structure :: "TcpResponse \<Rightarrow> pyval" where
  "TcpResponse_as_structure self = PDict [(''is'', PDict [(''data'', t_data self)])]"

definition TcpResponse_from_structure :: "pyval \<Rightarrow> error + TcpResponse" where
  "TcpResponse_from_structure structure =
     and_then (py_getitem structure ''is'') (\<lambda>inner.
     and_then (py_getitem inner ''data'') (\<lambda>d.
     Inr \<lparr> t_data = d \<rparr>))"

record InjectionResponse =
  i_inject :: pyval

definition InjectionResponse_as_structure :: "InjectionResponse \<Rightarrow> pyval" where
  "InjectionResponse_as_structure self = PDict [(''inject'', i_inject self)]"

definition InjectionResponse_from_structure :: "pyval \<Rightarrow> error + InjectionResponse" where
  "InjectionResponse_from_structure structure =
     and_then (py_getitem structure ''inject'') (\<lambda>v.
     Inr \<lparr> i_inject = v \<rparr>)"

section \<open>BaseResponse: dispatch on the shape of the document\<close>

datatype ('c, 'l, 'o, 'u, 'x) BaseResponse =
    IsResponse "('c, 'l, 'x) Response"
  | IsTcpResponse TcpResponse
  | IsProxy "('o, 'u) Proxy"
  | IsInjectionResponse InjectionResponse

text \<open>Python's \<^verbatim>\<open>a and b\<close> on two tests that may raise: \<open>b\<close> is evaluated only if \<open>a\<close> holds.\<close>

definition py_and :: "error + bool \<Rightarrow> error + bool \<Rightarrow> error + bool" where
  "py_and a b = and_then a (\<lambda>x. if x then b else Inr False)"

definition BaseResponse_from_structure ::
  "('c, 'l, 'o, 'u, 'x) externals \<Rightarrow> pyval \<Rightarrow> error + ('c, 'l, 'o, 'u, 'x) BaseResponse" where
  "BaseResponse_from_structure X structure =
     and_then (py_and (py_contains ''is'' structure) (py_contains ''_behaviors'' structure))
       (\<lambda>is_with_behaviors.
     if is_with_behaviors
     then and_then (Response_from_structure X structure) (\<lambda>r. Inr (IsResponse r))
     else and_then (py_and (py_contains ''is'' structure)
                      (and_then (py_getitem structure ''is'') (py_contains ''data'')))
            (\<lambda>is_with_data.
          if is_with_data
          then and_then (TcpResponse_from_structure structure) (\<lambda>r. Inr (IsTcpResponse r))
          else and_then (py_contains ''proxy'' structure) (\<lambda>has_proxy.
               if has_proxy
               then and_then (Proxy_from_structure X structure) (\<lambda>r. Inr (IsProxy r))
               else and_then (py_contains ''inject'' structure) (\<lambda>has_inject.
                    if has_inject
                    then and_then (InjectionResponse_from_structure structure)
                           (\<lambda>r. Inr (IsInjectionResponse r))
                    else Inl NotImplementedError))))"

section \<open>Values that survive serialisation\<close>

text \<open>
  A value that is \<^verbatim>\<open>None\<close> or truthy: an attribute with such a value is emitted by
  \<^verbatim>\<open>as_structure\<close> unless it is \<^verbatim>\<open>None\<close>.
\<close>

definition None_or_truthy :: "pyval \<Rightarrow> bool" where
  "None_or_truthy v = (v = PNone \<or> truthy v)"

text \<open>
  A list attribute (\<^verbatim>\<open>copy\<close>, \<^verbatim>\<open>lookup\<close>) that is \<^verbatim>\<open>None\<close> or a non-empty list whose
  elements are parsed back from their own structures.
\<close>

definition None_or_roundtrips :: "('a \<Rightarrow> pyval) \<Rightarrow> (pyval \<Rightarrow> error + 'a) \<Rightarrow> 'a list option \<Rightarrow> bool"
  where
  "None_or_roundtrips as_structure from_structure a =
     (case a of
        None \<Rightarrow> True
      | Some xs \<Rightarrow> xs \<noteq> [] \<and> list_all (\<lambda>x. from_structure (as_structure x) = Inr x) xs)"

section \<open>An instance of the imported names\<close>

text \<open>
  For evaluation on concrete documents: \<^verbatim>\<open>Copy\<close> and \<^verbatim>\<open>Lookup\<close> objects are their own
  structures, an operator is its name, a \<^verbatim>\<open>furl\<close> is built from a string and is its URL,
  an element is its text, and no byte string decodes.
\<close>

definition sample_externals :: "(pyval, pyval, string, string, string) externals" where
  "sample_externals =
     \<lparr> Copy_as_structure = (\<lambda>c. c),
       Copy_from_structure = Inr,
       Lookup_as_structure = (\<lambda>l. l),
       Lookup_from_structure = Inr,
       Operator_members = [(''EQUALS'', ''EQUALS''), (''CONTAINS'', ''CONTAINS'')],
       Operator_EQUALS = ''EQUALS'',
       furl = (\<lambda>v. case v of PStr s \<Rightarrow> Inr s | _ \<Rightarrow> Inl TypeError),
       furl_url = (\<lambda>u. u),
       et_tostring = (\<lambda>x. x),
       bytes_decode = (\<lambda>b. Inl UnicodeDecodeError) \<rparr>"

section \<open>Sequencing\<close>

lemma and_then_Inr [simp]: "and_then (Inr x) f = f x"
  by (simp add: and_then_def)

lemma and_then_Inl [simp]: "and_then (Inl e) f = Inl e"
  by (simp add: and_then_def)

lemma and_then_tag: "and_then m (\<lambda>r. Inr (g r)) = map_sum id g m"
  by (cases m) simp_all

lemma and_then_Inr_iff:
  "and_then m f = Inr y \<longleftrightarrow> (\<exists>x. m = Inr x \<and> f x = Inr y)"
  by (cases m) simp_all

section \<open>Proxy scenario\<close>

text \<open>
  C8. Scenario: \<^verbatim>\<open>Proxy(to="http://origin")\<close>, every other parameter omitted, serialises
  to exactly \<^verbatim>\<open>{"proxy": {"to": "http://origin", "mode": "proxyOnce"}}\<close>.
\<close>

theorem Proxy_default_mode_scenario:
  "Proxy_as_structure X (Proxy_init (NotFurl (PStr ''http://origin'')) None None None None) =
     Inr (PDict [(''proxy'', PDict [(''to'', PStr ''http://origin''),
                                   (''mode'', PStr ''proxyOnce'')])])"
  by (simp add: Proxy_as_structure_def Proxy_init_def arg_or_def add_if_true_def and_then_def)

section \<open>Dispatch\<close>

text \<open>
  C1 (as amended). For every document, with the tests of the four rules tried in this
  order: if it contains both \<^verbatim>\<open>"is"\<close> and \<^verbatim>\<open>"_behaviors"\<close> the result is that of the
  \<^verbatim>\<open>Response\<close> parser, also when the value under \<^verbatim>\<open>"is"\<close> contains \<^verbatim>\<open>"data"\<close>; if it
  contains \<^verbatim>\<open>"is"\<close> whose value contains \<^verbatim>\<open>"data"\<close> and \<^verbatim>\<open>"_behaviors"\<close> is absent,
  that of the \<^verbatim>\<open>TcpResponse\<close> parser; otherwise, provided the value under \<^verbatim>\<open>"is"\<close>
  (when there is one) is a mapping, a sequence or a string so that the test for
  \<^verbatim>\<open>"data"\<close> evaluates to false, if it contains \<^verbatim>\<open>"proxy"\<close> that of the \<^verbatim>\<open>Proxy\<close>
  parser, and otherwise if it contains \<^verbatim>\<open>"inject"\<close> that of the \<^verbatim>\<open>InjectionResponse\<close>
  parser. The result of a parser is the variant it builds, or the exception it raises.
\<close>

theorem BaseResponse_dispatch:
  "(map_of d ''is'' \<noteq> None \<and> map_of d ''_behaviors'' \<noteq> None \<longrightarrow>
      BaseResponse_from_structure X (PDict d) =
        map_sum id IsResponse (Response_from_structure X (PDict d)))
   \<and> (map_of d ''is'' = Some v \<and> py_contains ''data'' v = Inr True
        \<and> map_of d ''_behaviors'' = None \<longrightarrow>
      BaseResponse_from_structure X (PDict d) =
        map_sum id IsTcpResponse (TcpResponse_from_structure (PDict d)))
   \<and> (\<not> (map_of d ''is'' \<noteq> None \<and> map_of d ''_behaviors'' \<noteq> None)
        \<and> (\<forall>w. map_of d ''is'' = Some w \<longrightarrow> py_contains ''data'' w = Inr False)
        \<and> map_of d ''proxy'' \<noteq> None \<longrightarrow>
      BaseResponse_from_structure X (PDict d) =
        map_sum id IsProxy (Proxy_from_structure X (PDict d)))
   \<and> (\<not> (map_of d ''is'' \<noteq> None \<and> map_of d ''_behaviors'' \<noteq> None)
        \<and> (\<forall>w. map_of d ''is'' = Some w \<longrightarrow> py_contains ''data'' w = Inr False)
        \<and> map_of d ''proxy'' = None \<and> map_of d ''inject'' \<noteq> None \<longrightarrow>
      BaseResponse_from_structure X (PDict d) =
        map_sum id IsInjectionResponse (InjectionResponse_from_structure (PDict d)))"
  by (cases "map_of d ''is''")
     (auto simp add: BaseResponse_from_structure_def py_and_def and_then_tag)

text \<open>
  The four rules at work: a document with \<^verbatim>\<open>"is"\<close> (holding \<^verbatim>\<open>"data"\<close>) and
  \<^verbatim>\<open>"_behaviors"\<close> gives a \<^verbatim>\<open>Response\<close>, the same \<^verbatim>\<open>"is"\<close> alone a \<^verbatim>\<open>TcpResponse\<close>,
  and documents with \<^verbatim>\<open>"proxy"\<close> or \<^verbatim>\<open>"inject"\<close> a \<^verbatim>\<open>Proxy\<close> and an
  \<^verbatim>\<open>InjectionResponse\<close>.
\<close>

theorem BaseResponse_dispatch_witness:
  "BaseResponse_from_structure sample_externals
     (PDict [(''is'', PDict [(''_mode'', PStr ''text''), (''data'', PStr ''ABC'')]),
             (''_behaviors'', PDict [])]) =
     Inr (IsResponse \<lparr> r_body = Other (PStr []), r_status_code = PInt 200, r_wait = PNone,
            r_repeat = PNone, r_headers = PNone, r_mode = TEXT, r_copy = None,
            r_decorate = PNone, r_lookup = None, r_shell_transform = PNone \<rparr>)
   \<and> BaseResponse_from_structure sample_externals
       (PDict [(''is'', PDict [(''_mode'', PStr ''text''), (''data'', PStr ''ABC'')])]) =
     Inr (IsTcpResponse \<lparr> t_data = PStr ''ABC'' \<rparr>)
   \<and> BaseResponse_from_structure sample_externals
       (PDict [(''is'', PDict []),
               (''proxy'', PDict [(''to'', PStr ''http://origin''),
                                  (''mode'', PStr ''proxyAlways'')])]) =
     Inr (IsProxy \<lparr> p_to = Furl ''http://origin'', p_wait = PNone, p_inject_headers = PNone,
            p_mode = ALWAYS, p_predicate_generators = Some [] \<rparr>)
   \<and> BaseResponse_from_structure sample_externals
       (PDict [(''is'', PDict []), (''inject'', PStr ''f'')]) =
     Inr (IsInjectionResponse \<lparr> i_inject = PStr ''f'' \<rparr>)"
  using
    BaseResponse_dispatch [where X = sample_externals and d =
      "[(''is'', PDict [(''_mode'', PStr ''text''), (''data'', PStr ''ABC'')]),
        (''_behaviors'', PDict [])]"]
    BaseResponse_dispatch [where X = sample_externals and d =
      "[(''is'', PDict [(''_mode'', PStr ''text''), (''data'', PStr ''ABC'')])]"
      and v = "PDict [(''_mode'', PStr ''text''), (''data'', PStr ''ABC'')]"]
    BaseResponse_dispatch [where X = sample_externals and d =
      "[(''is'', PDict []),
        (''proxy'', PDict [(''to'', PStr ''http://origin''), (''mode'', PStr ''proxyAlways'')])]"]
    BaseResponse_dispatch [where X = sample_externals and d =
      "[(''is'', PDict []), (''inject'', PStr ''f'')]"]
  by (simp add: Response_from_structure_def Response_fields_from_structure_def
        Response_init_def Response_Mode_call_def set_if_in_dict_def arg_or_def normalize_def
        TcpResponse_from_structure_def Proxy_from_structure_def Proxy_init_def
        Proxy_Mode_call_def InjectionResponse_from_structure_def sample_externals_def)

text \<open>
  The claim as stated fails on \<^verbatim>\<open>{"is": 0, "inject": "f"}\<close>: the document has no
  \<^verbatim>\<open>"_behaviors"\<close>, the value under \<^verbatim>\<open>"is"\<close> does not contain \<^verbatim>\<open>"data"\<close>, there is no
  \<^verbatim>\<open>"proxy"\<close> and there is \<^verbatim>\<open>"inject"\<close>, and the \<^verbatim>\<open>InjectionResponse\<close> parser accepts
  it; but the test \<^verbatim>\<open>"data" in structure["is"]\<close> raises \<^verbatim>\<open>TypeError\<close> on the integer
  before the later rules are tried.
\<close>

theorem BaseResponse_dispatch_counterexample:
  "InjectionResponse_from_structure (PDict [(''is'', PInt 0), (''inject'', PStr ''f'')]) =
     Inr \<lparr> i_inject = PStr ''f'' \<rparr>
   \<and> BaseResponse_from_structure sample_externals
       (PDict [(''is'', PInt 0), (''inject'', PStr ''f'')]) = Inl TypeError"
  by (simp add: BaseResponse_from_structure_def py_and_def InjectionResponse_from_structure_def)

text \<open>
  C5 (as amended). A document on which none of the four tests holds, the value under
  \<^verbatim>\<open>"is"\<close> (when there is one) being a mapping, a sequence or a string that does not
  contain \<^verbatim>\<open>"data"\<close>, makes \<^verbatim>\<open>BaseResponse.from_structure\<close> raise
  \<^verbatim>\<open>NotImplementedError\<close>, the unrecognized-shape error; no value is returned.
\<close>

theorem unrecognized_shape:
  assumes "\<not> (map_of d ''is'' \<noteq> None \<and> map_of d ''_behaviors'' \<noteq> None)"
    and "\<forall>w. map_of d ''is'' = Some w \<longrightarrow> py_contains ''data'' w = Inr False"
    and "map_of d ''proxy'' = None"
    and "map_of d ''inject'' = None"
  shows "BaseResponse_from_structure X (PDict d) = Inl NotImplementedError"
  using assms
  by (cases "map_of d ''is''")
     (auto simp add: BaseResponse_from_structure_def py_and_def)

text \<open>The empty document, and a document whose \<^verbatim>\<open>"is"\<close> block has a body only.\<close>

theorem unrecognized_shape_witness:
  "BaseResponse_from_structure sample_externals (PDict []) = Inl NotImplementedError
   \<and> BaseResponse_from_structure sample_externals
       (PDict [(''is'', PDict [(''body'', PStr ''x'')])]) = Inl NotImplementedError"
  using unrecognized_shape [of "[]" sample_externals]
    unrecognized_shape [of "[(''is'', PDict [(''body'', PStr ''x'')])]" sample_externals]
  by simp

text \<open>
  The claim as stated fails on \<^verbatim>\<open>{"is": 0}\<close>: none of the four shapes is there, and the
  exception is the \<^verbatim>\<open>TypeError\<close> of the test \<^verbatim>\<open>"data" in structure["is"]\<close>, not
  \<^verbatim>\<open>NotImplementedError\<close>.
\<close>

theorem unrecognized_shape_counterexample:
  "BaseResponse_from_structure sample_externals (PDict [(''is'', PInt 0)]) = Inl TypeError
   \<and> BaseResponse_from_structure sample_externals (PDict [(''is'', PInt 0)])
       \<noteq> Inl NotImplementedError"
  by (simp add: BaseResponse_from_structure_def py_and_def)

section \<open>PredicateGenerator: what is emitted and what is parsed\<close>

lemma PredicateGenerator_from_structure_dict:
  "map_of d ''matches'' = Some (PDict m) \<Longrightarrow>
   PredicateGenerator_from_structure X (PDict d) =
     and_then (case map_of d ''operator'' of
                 None \<Rightarrow> Inr (Operator_EQUALS X)
               | Some v \<Rightarrow> Operator_getitem X v) (\<lambda>operator.
     Inr \<lparr> pg_path = (case map_of m ''path'' of None \<Rightarrow> PNone | Some v \<Rightarrow> v),
           pg_query = (case map_of m ''query'' of None \<Rightarrow> PNone | Some v \<Rightarrow> v),
           pg_operator = operator,
           pg_case_sensitive = (case map_of d ''caseSensitive'' of
                                  None \<Rightarrow> PBool False | Some v \<Rightarrow> v) \<rparr>)"
  by (cases "map_of d ''operator''")
     (simp_all add: PredicateGenerator_from_structure_def PredicateGenerator_init_def arg_or_def)

text \<open>A structure that parses is a dict with a dict under \<^verbatim>\<open>"matches"\<close>.\<close>

lemma PredicateGenerator_from_structure_Inr:
  assumes "PredicateGenerator_from_structure X s = Inr p"
  shows "\<exists>d m operator. s = PDict d \<and> map_of d ''matches'' = Some (PDict m)
           \<and> (case map_of d ''operator'' of
                  None \<Rightarrow> Inr (Operator_EQUALS X)
                | Some v \<Rightarrow> Operator_getitem X v) = Inr operator
           \<and> p = \<lparr> pg_path = (case map_of m ''path'' of None \<Rightarrow> PNone | Some v \<Rightarrow> v),
                    pg_query = (case map_of m ''query'' of None \<Rightarrow> PNone | Some v \<Rightarrow> v),
                    pg_operator = operator,
                    pg_case_sensitive = (case map_of d ''caseSensitive'' of
                                           None \<Rightarrow> PBool False | Some v \<Rightarrow> v) \<rparr>"
proof -
  from assms obtain m1 path where m1: "py_getitem s ''matches'' = Inr m1"
    and path: "py_get m1 ''path'' PNone = Inr path"
    unfolding PredicateGenerator_from_structure_def and_then_Inr_iff by blast
  from m1 obtain d where d: "s = PDict d" by (cases s) simp_all
  from path obtain m where m: "m1 = PDict m" by (cases m1) simp_all
  from m1 d m have mm: "map_of d ''matches'' = Some (PDict m)"
    by (simp split: option.splits)
  from assms [unfolded d PredicateGenerator_from_structure_dict [OF mm]] d mm
  show ?thesis
    by (auto simp add: and_then_Inr_iff)
qed

lemma Operator_getitem_unknown:
  "map_of (Operator_members X) n = None \<Longrightarrow> Operator_getitem X (PStr n) = Inl (KeyError (PStr n))"
  by (simp add: Operator_getitem_def)

lemma Operator_getitem_known:
  "map_of (Operator_members X) n = Some member \<Longrightarrow> Operator_getitem X (PStr n) = Inr member"
  by (simp add: Operator_getitem_def)

text \<open>
  C6. \<^verbatim>\<open>PredicateGenerator.as_structure\<close> always emits \<^verbatim>\<open>"caseSensitive"\<close>, with the value
  of the attribute, which the constructor sets to \<^verbatim>\<open>True\<close> when the argument is omitted;
  \<^verbatim>\<open>from_structure\<close> on a structure without the key gives a generator whose
  \<^verbatim>\<open>case_sensitive\<close> is \<^verbatim>\<open>False\<close>: whenever it returns one, and it returns one when the
  structure has its \<^verbatim>\<open>"matches"\<close> mapping and no \<^verbatim>\<open>"operator"\<close>.
\<close>

theorem caseSensitive_asymmetry:
  "(\<exists>m. PredicateGenerator_as_structure g =
          PDict [(''caseSensitive'', pg_case_sensitive g), (''matches'', PDict m)])
   \<and> pg_case_sensitive (PredicateGenerator_init X path query operator None) = PBool True
   \<and> (map_of d ''caseSensitive'' = None \<and> PredicateGenerator_from_structure X (PDict d) = Inr p
        \<longrightarrow> pg_case_sensitive p = PBool False)
   \<and> (map_of d ''caseSensitive'' = None \<and> map_of d ''matches'' = Some (PDict m')
        \<and> map_of d ''operator'' = None
        \<longrightarrow> (\<exists>q. PredicateGenerator_from_structure X (PDict d) = Inr q
                 \<and> pg_case_sensitive q = PBool False))"
proof (intro conjI impI)
  show "\<exists>m. PredicateGenerator_as_structure g =
          PDict [(''caseSensitive'', pg_case_sensitive g), (''matches'', PDict m)]"
    by (simp add: PredicateGenerator_as_structure_def Let_def)
  show "pg_case_sensitive (PredicateGenerator_init X path query operator None) = PBool True"
    by (simp add: PredicateGenerator_init_def arg_or_def)
next
  assume "map_of d ''caseSensitive'' = None
    \<and> PredicateGenerator_from_structure X (PDict d) = Inr p"
  then show "pg_case_sensitive p = PBool False"
    using PredicateGenerator_from_structure_Inr [of X "PDict d" p] by auto
next
  assume "map_of d ''caseSensitive'' = None \<and> map_of d ''matches'' = Some (PDict m')
        \<and> map_of d ''operator'' = None"
  then show "\<exists>q. PredicateGenerator_from_structure X (PDict d) = Inr q
                 \<and> pg_case_sensitive q = PBool False"
    by (simp add: PredicateGenerator_from_structure_dict)
qed

text \<open>
  The default generator is emitted with \<^verbatim>\<open>"caseSensitive": true\<close>, and the same structure
  without that key is parsed to a generator with \<^verbatim>\<open>case_sensitive\<close> \<^verbatim>\<open>False\<close>.
\<close>

theorem caseSensitive_asymmetry_witness:
  "PredicateGenerator_as_structure (PredicateGenerator_init sample_externals None None None None)
     = PDict [(''caseSensitive'', PBool True), (''matches'', PDict [])]
   \<and> map_of [(''matches'', PDict [])] ''caseSensitive'' = None
   \<and> PredicateGenerator_from_structure sample_externals (PDict [(''matches'', PDict [])])
     = Inr \<lparr> pg_path = PNone, pg_query = PNone, pg_operator = ''EQUALS'',
             pg_case_sensitive = PBool False \<rparr>"
  using caseSensitive_asymmetry [where X = sample_externals
      and g = "PredicateGenerator_init sample_externals None None None None"
      and d = "[(''matches'', PDict [])]" and m' = "[]" and path = None and query = None
      and operator = None
      and p = "\<lparr> pg_path = PNone, pg_query = PNone, pg_operator = ''EQUALS'',
                 pg_case_sensitive = PBool False \<rparr>"]
  by (simp add: PredicateGenerator_from_structure_def PredicateGenerator_as_structure_def
        PredicateGenerator_init_def arg_or_def add_if_true_def sample_externals_def)

text \<open>
  C7. \<^verbatim>\<open>PredicateGenerator.as_structure\<close> never emits an \<^verbatim>\<open>"operator"\<close> key.
  \<^verbatim>\<open>from_structure\<close> looks the operator up by member name: without the key the operator
  is \<^verbatim>\<open>EQUALS\<close> (whenever a generator is returned, and one is returned when the structure
  has its \<^verbatim>\<open>"matches"\<close> mapping); a known name gives its member; an unknown name makes
  the parse fail, with the \<^verbatim>\<open>KeyError\<close> of the enumeration's lookup by name when the
  structure has its \<^verbatim>\<open>"matches"\<close> mapping.
\<close>

theorem operator_asymmetry:
  "(\<exists>d. PredicateGenerator_as_structure g = PDict d \<and> map_of d ''operator'' = None)
   \<and> (map_of d ''operator'' = None \<and> PredicateGenerator_from_structure X (PDict d) = Inr p
        \<longrightarrow> pg_operator p = Operator_EQUALS X)
   \<and> (map_of d ''operator'' = None \<and> map_of d ''matches'' = Some (PDict m)
        \<longrightarrow> (\<exists>q. PredicateGenerator_from_structure X (PDict d) = Inr q
                 \<and> pg_operator q = Operator_EQUALS X))
   \<and> (map_of d ''operator'' = Some (PStr n) \<and> map_of (Operator_members X) n = Some member
        \<and> map_of d ''matches'' = Some (PDict m)
        \<longrightarrow> (\<exists>q. PredicateGenerator_from_structure X (PDict d) = Inr q
                 \<and> pg_operator q = member))
   \<and> (map_of d ''operator'' = Some (PStr n) \<and> map_of (Operator_members X) n = None
        \<longrightarrow> (\<exists>e. PredicateGenerator_from_structure X (PDict d) = Inl e))
   \<and> (map_of d ''operator'' = Some (PStr n) \<and> map_of (Operator_members X) n = None
        \<and> map_of d ''matches'' = Some (PDict m)
        \<longrightarrow> PredicateGenerator_from_structure X (PDict d) = Inl (KeyError (PStr n)))"
proof (intro conjI impI)
  show "\<exists>d. PredicateGenerator_as_structure g = PDict d \<and> map_of d ''operator'' = None"
    by (simp add: PredicateGenerator_as_structure_def Let_def)
next
  assume "map_of d ''operator'' = None \<and> PredicateGenerator_from_structure X (PDict d) = Inr p"
  then show "pg_operator p = Operator_EQUALS X"
    using PredicateGenerator_from_structure_Inr [of X "PDict d" p] by auto
next
  assume "map_of d ''operator'' = None \<and> map_of d ''matches'' = Some (PDict m)"
  then show "\<exists>q. PredicateGenerator_from_structure X (PDict d) = Inr q
                 \<and> pg_operator q = Operator_EQUALS X"
    by (simp add: PredicateGenerator_from_structure_dict)
next
  assume "map_of d ''operator'' = Some (PStr n) \<and> map_of (Operator_members X) n = Some member
        \<and> map_of d ''matches'' = Some (PDict m)"
  then show "\<exists>q. PredicateGenerator_from_structure X (PDict d) = Inr q \<and> pg_operator q = member"
    by (simp add: PredicateGenerator_from_structure_dict Operator_getitem_known)
next
  assume a: "map_of d ''operator'' = Some (PStr n) \<and> map_of (Operator_members X) n = None"
  show "\<exists>e. PredicateGenerator_from_structure X (PDict d) = Inl e"
  proof (cases "PredicateGenerator_from_structure X (PDict d)")
    case (Inl e)
    then show ?thesis by blast
  next
    case (Inr q)
    with a show ?thesis
      using PredicateGenerator_from_structure_Inr [of X "PDict d" q]
      by (auto simp add: Operator_getitem_unknown)
  qed
next
  assume "map_of d ''operator'' = Some (PStr n) \<and> map_of (Operator_members X) n = None
        \<and> map_of d ''matches'' = Some (PDict m)"
  then show "PredicateGenerator_from_structure X (PDict d) = Inl (KeyError (PStr n))"
    by (simp add: PredicateGenerator_from_structure_dict Operator_getitem_unknown)
qed

text \<open>
  A generator built with the operator \<^verbatim>\<open>CONTAINS\<close> is emitted without it; structures
  without \<^verbatim>\<open>"operator"\<close>, with the name \<^verbatim>\<open>CONTAINS\<close> and with the unknown name
  \<^verbatim>\<open>BOGUS\<close> are parsed to \<^verbatim>\<open>EQUALS\<close>, to \<^verbatim>\<open>CONTAINS\<close> and to a \<^verbatim>\<open>KeyError\<close>.
\<close>

theorem operator_asymmetry_witness:
  "PredicateGenerator_as_structure
     (PredicateGenerator_init sample_externals None None (Some ''CONTAINS'') None)
     = PDict [(''caseSensitive'', PBool True), (''matches'', PDict [])]
   \<and> PredicateGenerator_from_structure sample_externals (PDict [(''matches'', PDict [])])
     = Inr \<lparr> pg_path = PNone, pg_query = PNone, pg_operator = ''EQUALS'',
             pg_case_sensitive = PBool False \<rparr>
   \<and> PredicateGenerator_from_structure sample_externals
       (PDict [(''matches'', PDict []), (''operator'', PStr ''CONTAINS'')])
     = Inr \<lparr> pg_path = PNone, pg_query = PNone, pg_operator = ''CONTAINS'',
             pg_case_sensitive = PBool False \<rparr>
   \<and> PredicateGenerator_from_structure sample_externals
       (PDict [(''matches'', PDict []), (''operator'', PStr ''BOGUS'')])
     = Inl (KeyError (PStr ''BOGUS''))"
  using
    operator_asymmetry [where X = sample_externals
      and g = "PredicateGenerator_init sample_externals None None (Some ''CONTAINS'') None"
      and d = "[(''matches'', PDict [])]" and m = "[]"
      and p = "\<lparr> pg_path = PNone, pg_query = PNone, pg_operator = ''EQUALS'',
                 pg_case_sensitive = PBool False \<rparr>"]
    operator_asymmetry [where X = sample_externals
      and d = "[(''matches'', PDict []), (''operator'', PStr ''CONTAINS'')]" and m = "[]"
      and n = "''CONTAINS''" and member = "''CONTAINS''"]
    operator_asymmetry [where X = sample_externals
      and d = "[(''matches'', PDict []), (''operator'', PStr ''BOGUS'')]" and m = "[]"
      and n = "''BOGUS''"]
  by (simp add: PredicateGenerator_from_structure_def PredicateGenerator_as_structure_def
        PredicateGenerator_init_def arg_or_def add_if_true_def sample_externals_def
        Operator_getitem_def)

section \<open>Required and optional keys of the parsers\<close>

lemma set_if_in_dict_dict:
  "set_if_in_dict (PDict d) key setter self =
     Inr (case map_of d key of None \<Rightarrow> self | Some v \<Rightarrow> setter v self)"
  by (cases "map_of d key") (simp_all add: set_if_in_dict_def)

lemma Response_init_defaults:
  "Response_init None None None None None None None None None None =
     Inr \<lparr> r_body = Other (PStr []), r_status_code = PInt 200, r_wait = PNone,
           r_repeat = PNone, r_headers = PNone, r_mode = TEXT, r_copy = None,
           r_decorate = PNone, r_lookup = None, r_shell_transform = PNone \<rparr>"
  by (simp add: Response_init_def arg_or_def normalize_def)

lemma Response_fields_from_structure_dict:
  "map_of d ''is'' = Some (PDict inner) \<Longrightarrow>
   Response_fields_from_structure (PDict d) self =
     (case map_of inner ''_mode'' of
        None \<Rightarrow> Inl (KeyError (PStr ''_mode''))
      | Some mode_v \<Rightarrow>
          and_then (Response_Mode_call mode_v) (\<lambda>mode.
          Inr (self\<lparr> r_body := (case map_of inner ''body'' of
                                   None \<Rightarrow> r_body self | Some v \<Rightarrow> Other v),
                      r_mode := mode,
                      r_headers := (case map_of inner ''headers'' of
                                      None \<Rightarrow> r_headers self | Some v \<Rightarrow> v),
                      r_status_code := (case map_of inner ''statusCode'' of
                                          None \<Rightarrow> r_status_code self | Some v \<Rightarrow> v) \<rparr>)))"
  by (cases "Response_Mode_call (the (map_of inner ''_mode''))")
     (auto simp add: Response_fields_from_structure_def Let_def split: option.splits)

text \<open>
  C9. \<^verbatim>\<open>Response.from_structure\<close> requires \<^verbatim>\<open>"_mode"\<close>: on every document whose
  \<^verbatim>\<open>"is"\<close> block lacks the key it raises \<^verbatim>\<open>KeyError\<close>. With a valid \<^verbatim>\<open>"_mode"\<close> (and
  no behaviors) it returns a \<^verbatim>\<open>Response\<close> whether or not \<^verbatim>\<open>"body"\<close>, \<^verbatim>\<open>"headers"\<close> and
  \<^verbatim>\<open>"statusCode"\<close> are there: an absent one leaves the constructor's default.
\<close>

theorem Response_mode_required:
  "(map_of d ''is'' = Some (PDict inner) \<and> map_of inner ''_mode'' = None \<longrightarrow>
      Response_from_structure X (PDict d) = Inl (KeyError (PStr ''_mode'')))
   \<and> (map_of d ''is'' = Some (PDict inner) \<and> map_of inner ''_mode'' = Some mode_v
        \<and> Response_Mode_call mode_v = Inr mode
        \<and> (map_of d ''_behaviors'' = None \<or> map_of d ''_behaviors'' = Some (PDict [])) \<longrightarrow>
      Response_from_structure X (PDict d) =
        Inr \<lparr> r_body = (case map_of inner ''body'' of
                          None \<Rightarrow> Other (PStr []) | Some v \<Rightarrow> Other v),
              r_status_code = (case map_of inner ''statusCode'' of
                                 None \<Rightarrow> PInt 200 | Some v \<Rightarrow> v),
              r_wait = PNone, r_repeat = PNone,
              r_headers = (case map_of inner ''headers'' of None \<Rightarrow> PNone | Some v \<Rightarrow> v),
              r_mode = mode, r_copy = None, r_decorate = PNone, r_lookup = None,
              r_shell_transform = PNone \<rparr>)"
  by (auto simp add: Response_from_structure_def Response_init_defaults
        Response_fields_from_structure_dict set_if_in_dict_dict cong: option.case_cong)

text \<open>
  A block with a body and no \<^verbatim>\<open>"_mode"\<close> is refused; a block with \<^verbatim>\<open>"_mode"\<close> alone is
  parsed, with the default body, headers and status code.
\<close>

theorem Response_mode_required_witness:
  "Response_from_structure sample_externals
     (PDict [(''is'', PDict [(''body'', PStr ''hi''), (''statusCode'', PInt 200)]),
             (''_behaviors'', PDict [])]) = Inl (KeyError (PStr ''_mode''))
   \<and> Response_Mode_call (PStr ''binary'') = Inr BINARY
   \<and> Response_from_structure sample_externals
       (PDict [(''is'', PDict [(''_mode'', PStr ''binary'')]), (''_behaviors'', PDict [])]) =
       Inr \<lparr> r_body = Other (PStr []), r_status_code = PInt 200, r_wait = PNone,
             r_repeat = PNone, r_headers = PNone, r_mode = BINARY, r_copy = None,
             r_decorate = PNone, r_lookup = None, r_shell_transform = PNone \<rparr>"
  using
    Response_mode_required [where X = sample_externals
      and d = "[(''is'', PDict [(''body'', PStr ''hi''), (''statusCode'', PInt 200)]),
                (''_behaviors'', PDict [])]"
      and inner = "[(''body'', PStr ''hi''), (''statusCode'', PInt 200)]"]
    Response_mode_required [where X = sample_externals
      and d = "[(''is'', PDict [(''_mode'', PStr ''binary'')]), (''_behaviors'', PDict [])]"
      and inner = "[(''_mode'', PStr ''binary'')]" and mode_v = "PStr ''binary''"
      and mode = BINARY]
  by (simp add: Response_Mode_call_def)

lemma and_thenE:
  assumes "and_then m f = Inr y"
  obtains x where "m = Inr x" and "f x = Inr y"
  using assms by (cases m) simp_all

text \<open>What a successful \<^verbatim>\<open>Proxy.from_structure\<close> says about the document and the result.\<close>

lemma Proxy_from_structure_Inr:
  assumes "Proxy_from_structure X s = Inr p"
  shows "\<exists>d ps pgs. s = PDict d \<and> map_of d ''proxy'' = Some (PDict ps)
           \<and> p_predicate_generators p = Some pgs
           \<and> (map_of ps ''predicateGenerators'' = None \<longrightarrow> pgs = [])"
  using assms unfolding Proxy_from_structure_def Let_def
proof (elim and_thenE)
  fix proxy_structure to_v to inject_headers mode has_pg predicate_generators wait
  assume ps: "py_getitem s ''proxy'' = Inr proxy_structure"
    and tv: "py_getitem proxy_structure ''to'' = Inr to_v"
    and hp: "py_contains ''predicateGenerators'' proxy_structure = Inr has_pg"
    and pg: "(if has_pg
              then and_then (py_getitem proxy_structure ''predicateGenerators'') (\<lambda>pgs_v.
                   and_then (py_iter pgs_v) (\<lambda>pgs.
                   and_then (traverse (PredicateGenerator_from_structure X) pgs) (\<lambda>pgs.
                   Inr (Some pgs))))
              else Inr None) = Inr predicate_generators"
    and p: "Inr (if truthy wait
                 then (Proxy_init (Furl to) None (Some inject_headers) (Some mode)
                         (Some predicate_generators))\<lparr>p_wait := wait\<rparr>
                 else Proxy_init (Furl to) None (Some inject_headers) (Some mode)
                        (Some predicate_generators)) = Inr p"
  from ps obtain d where d: "s = PDict d" by (cases s) simp_all
  from tv obtain ps' where ps': "proxy_structure = PDict ps'" by (cases proxy_structure) simp_all
  from ps d ps' have m: "map_of d ''proxy'' = Some (PDict ps')"
    by (simp split: option.splits)
  have stored: "p_predicate_generators p =
      (if predicate_generators \<noteq> None then predicate_generators else Some [])"
    using p [symmetric] by (cases "truthy wait") (simp_all add: Proxy_init_def arg_or_def)
  have absent: "predicate_generators = None" if "map_of ps' ''predicateGenerators'' = None"
    using that hp pg ps' by simp
  show ?thesis
  proof (cases predicate_generators)
    case None
    with stored have "p_predicate_generators p = Some []" by simp
    with d m show ?thesis
      by (intro exI [where x = d] exI [where x = ps'] exI [where x = "[]"]) simp
  next
    case (Some pgs)
    with stored have 1: "p_predicate_generators p = Some pgs" by simp
    have 2: "map_of ps' ''predicateGenerators'' \<noteq> None"
      using absent Some by auto
    from d m 1 2 show ?thesis
      by (intro exI [where x = d] exI [where x = ps'] exI [where x = pgs] conjI impI)
         (assumption, assumption, assumption, erule notE, assumption)
  qed
qed

text \<open>
  C10. The attribute \<^verbatim>\<open>predicate_generators\<close> of a \<^verbatim>\<open>Proxy\<close> is never \<^verbatim>\<open>None\<close>: the
  constructor stores the empty list when the argument is omitted or \<^verbatim>\<open>None\<close> and the
  given iterable otherwise; every \<^verbatim>\<open>Proxy\<close> that \<^verbatim>\<open>from_structure\<close> returns has a list,
  the empty one when the proxy block has no \<^verbatim>\<open>"predicateGenerators"\<close>, and
  \<^verbatim>\<open>from_structure\<close> does return a \<^verbatim>\<open>Proxy\<close> for such a block with a valid \<^verbatim>\<open>"to"\<close>
  and \<^verbatim>\<open>"mode"\<close>.
\<close>

theorem Proxy_predicate_generators_never_None:
  "p_predicate_generators (Proxy_init to wait inject_headers mode None) = Some []
   \<and> p_predicate_generators (Proxy_init to wait inject_headers mode (Some None)) = Some []
   \<and> p_predicate_generators (Proxy_init to wait inject_headers mode (Some (Some pgs)))
       = Some pgs
   \<and> (Proxy_from_structure X s = Inr p \<longrightarrow> p_predicate_generators p \<noteq> None)
   \<and> (map_of d ''proxy'' = Some (PDict ps) \<and> map_of ps ''predicateGenerators'' = None
        \<and> Proxy_from_structure X (PDict d) = Inr p'
        \<longrightarrow> p_predicate_generators p' = Some [])
   \<and> (map_of d ''proxy'' = Some (PDict ps) \<and> map_of ps ''predicateGenerators'' = None
        \<and> map_of ps ''to'' = Some to_v \<and> furl X to_v = Inr u
        \<and> map_of ps ''mode'' = Some mode_v \<and> Proxy_Mode_call mode_v = Inr m
        \<and> map_of d ''_behaviors'' = None
        \<longrightarrow> Proxy_from_structure X (PDict d) =
              Inr \<lparr> p_to = Furl u, p_wait = PNone,
                    p_inject_headers = (case map_of ps ''injectHeaders'' of
                                          None \<Rightarrow> PNone | Some v \<Rightarrow> v),
                    p_mode = m, p_predicate_generators = Some [] \<rparr>)"
proof (intro conjI impI)
  show "p_predicate_generators (Proxy_init to wait inject_headers mode None) = Some []"
    by (simp add: Proxy_init_def arg_or_def)
  show "p_predicate_generators (Proxy_init to wait inject_headers mode (Some None)) = Some []"
    by (simp add: Proxy_init_def arg_or_def)
  show "p_predicate_generators (Proxy_init to wait inject_headers mode (Some (Some pgs)))
       = Some pgs"
    by (simp add: Proxy_init_def arg_or_def)
next
  assume "Proxy_from_structure X s = Inr p"
  from Proxy_from_structure_Inr [OF this]
  show "p_predicate_generators p \<noteq> None" by auto
next
  assume a: "map_of d ''proxy'' = Some (PDict ps) \<and> map_of ps ''predicateGenerators'' = None
        \<and> Proxy_from_structure X (PDict d) = Inr p'"
  then have "Proxy_from_structure X (PDict d) = Inr p'" by simp
  from Proxy_from_structure_Inr [OF this] a
  show "p_predicate_generators p' = Some []" by auto
next
  assume a: "map_of d ''proxy'' = Some (PDict ps) \<and> map_of ps ''predicateGenerators'' = None
        \<and> map_of ps ''to'' = Some to_v \<and> furl X to_v = Inr u
        \<and> map_of ps ''mode'' = Some mode_v \<and> Proxy_Mode_call mode_v = Inr m
        \<and> map_of d ''_behaviors'' = None"
  have 1: "py_getitem (PDict d) ''proxy'' = Inr (PDict ps)" using a by simp
  have 2: "py_getitem (PDict ps) ''to'' = Inr to_v" using a by simp
  have 3: "furl X to_v = Inr u" using a by simp
  have 4: "py_contains ''injectHeaders'' (PDict ps) = Inr (map_of ps ''injectHeaders'' \<noteq> None)"
    by simp
  have 5: "(if map_of ps ''injectHeaders'' \<noteq> None then py_getitem (PDict ps) ''injectHeaders''
            else Inr PNone) =
           Inr (case map_of ps ''injectHeaders'' of None \<Rightarrow> PNone | Some v \<Rightarrow> v)"
    by (cases "map_of ps ''injectHeaders''") simp_all
  have 6: "py_getitem (PDict ps) ''mode'' = Inr mode_v" using a by simp
  have 7: "Proxy_Mode_call mode_v = Inr m" using a by simp
  have 8: "py_contains ''predicateGenerators'' (PDict ps) = Inr False" using a by simp
  have 9: "py_get (PDict d) ''_behaviors'' (PDict []) = Inr (PDict [])" using a by simp
  have 10: "py_get (PDict []) ''wait'' PNone = Inr PNone" by simp
  show "Proxy_from_structure X (PDict d) =
              Inr \<lparr> p_to = Furl u, p_wait = PNone,
                    p_inject_headers = (case map_of ps ''injectHeaders'' of
                                          None \<Rightarrow> PNone | Some v \<Rightarrow> v),
                    p_mode = m, p_predicate_generators = Some [] \<rparr>"
    unfolding Proxy_from_structure_def 1 and_then_Inr 2 3 4 5 6 7 8 if_False 9 10 Let_def
    by (simp add: Proxy_init_def arg_or_def)
qed

text \<open>
  The document \<^verbatim>\<open>{"proxy": {"to": "http://origin", "mode": "proxyOnce"}}\<close> is parsed to
  a \<^verbatim>\<open>Proxy\<close> whose list of generators is empty.
\<close>

theorem Proxy_predicate_generators_never_None_witness:
  "map_of [(''to'', PStr ''http://origin''), (''mode'', PStr ''proxyOnce'')]
     ''predicateGenerators'' = None
   \<and> Proxy_from_structure sample_externals
       (PDict [(''proxy'', PDict [(''to'', PStr ''http://origin''),
                                  (''mode'', PStr ''proxyOnce'')])]) =
     Inr \<lparr> p_to = Furl ''http://origin'', p_wait = PNone, p_inject_headers = PNone,
           p_mode = ONCE, p_predicate_generators = Some [] \<rparr>
   \<and> p_predicate_generators
       \<lparr> p_to = Furl ''http://origin'', p_wait = PNone, p_inject_headers = PNone,
         p_mode = ONCE, p_predicate_generators = Some ([] :: string PredicateGenerator list) \<rparr>
       \<noteq> None"
  using Proxy_predicate_generators_never_None [where X = sample_externals
      and to = "Furl ''http://origin''" and wait = None and inject_headers = None
      and mode = None and pgs = "[]"
      and d = "[(''proxy'', PDict [(''to'', PStr ''http://origin''),
                                   (''mode'', PStr ''proxyOnce'')])]"
      and ps = "[(''to'', PStr ''http://origin''), (''mode'', PStr ''proxyOnce'')]"
      and to_v = "PStr ''http://origin''" and u = "''http://origin''"
      and mode_v = "PStr ''proxyOnce''" and m = ONCE
      and s = "PDict [(''proxy'', PDict [(''to'', PStr ''http://origin''),
                                         (''mode'', PStr ''proxyOnce'')])]"
      and p = "\<lparr> p_to = Furl ''http://origin'', p_wait = PNone, p_inject_headers = PNone,
                 p_mode = ONCE, p_predicate_generators = Some [] \<rparr>"
      and p' = "\<lparr> p_to = Furl ''http://origin'', p_wait = PNone, p_inject_headers = PNone,
                 p_mode = ONCE, p_predicate_generators = Some [] \<rparr>"]
  by (simp add: Proxy_Mode_call_def Proxy_init_def arg_or_def sample_externals_def)

section \<open>What as_structure emits\<close>

lemma map_of_add_if_true:
  "map_of (add_if_true d k v) k' = (if k' = k \<and> truthy v then Some v else map_of d k')"
  by (simp add: add_if_true_def update_conv')

lemma Response_is_structure_Inr:
  assumes "Response_body X r = Inr b"
  shows "Response_is_structure X r =
           Inr (PDict (add_if_true (add_if_true
                  [(''statusCode'', r_status_code r),
                   (''_mode'', PStr (Response_Mode_value (r_mode r)))]
                  ''body'' b) ''headers'' (r_headers r)))"
  using assms by (simp add: Response_is_structure_def Let_def)

lemma Response_as_structure_Inr:
  assumes "Response_body X r = Inr b"
  shows "Response_as_structure X r =
           Inr (PDict [(''is'', PDict (add_if_true (add_if_true
                          [(''statusCode'', r_status_code r),
                           (''_mode'', PStr (Response_Mode_value (r_mode r)))]
                          ''body'' b) ''headers'' (r_headers r))),
                       (''_behaviors'', Response_behaviors_structure X r)])"
  by (simp add: Response_as_structure_def Response_is_structure_Inr [OF assms])

text \<open>
  C4. Whenever \<^verbatim>\<open>Response.as_structure\<close> returns (the body, if a byte string, decodes),
  the \<^verbatim>\<open>"is"\<close> block of its output contains \<^verbatim>\<open>"statusCode"\<close> and \<^verbatim>\<open>"_mode"\<close>,
  whatever the values of the attributes; \<^verbatim>\<open>"body"\<close> and \<^verbatim>\<open>"headers"\<close> are in the block
  exactly when their values are truthy.
\<close>

theorem Response_is_block:
  assumes "Response_body X r = Inr b"
  shows "\<exists>is_structure.
           Response_as_structure X r =
             Inr (PDict [(''is'', PDict is_structure),
                         (''_behaviors'', Response_behaviors_structure X r)])
           \<and> map_of is_structure ''statusCode'' = Some (r_status_code r)
           \<and> map_of is_structure ''_mode'' = Some (PStr (Response_Mode_value (r_mode r)))
           \<and> map_of is_structure ''body'' = (if truthy b then Some b else None)
           \<and> map_of is_structure ''headers'' =
               (if truthy (r_headers r) then Some (r_headers r) else None)"
  by (rule exI [where x = "add_if_true (add_if_true
                  [(''statusCode'', r_status_code r),
                   (''_mode'', PStr (Response_Mode_value (r_mode r)))]
                  ''body'' b) ''headers'' (r_headers r)"])
     (simp add: Response_as_structure_Inr [OF assms] map_of_add_if_true)

text \<open>
  A response with the status code \<^verbatim>\<open>0\<close>, an empty body and empty headers: the block is
  \<^verbatim>\<open>{"statusCode": 0, "_mode": "text"}\<close>.
\<close>

theorem Response_is_block_witness:
  "Response_body sample_externals
     \<lparr> r_body = Other (PStr []), r_status_code = PInt 0, r_wait = PNone, r_repeat = PNone,
       r_headers = PDict [], r_mode = TEXT, r_copy = None, r_decorate = PNone,
       r_lookup = None, r_shell_transform = PNone \<rparr> = Inr (PStr [])
   \<and> Response_as_structure sample_externals
       \<lparr> r_body = Other (PStr []), r_status_code = PInt 0, r_wait = PNone, r_repeat = PNone,
         r_headers = PDict [], r_mode = TEXT, r_copy = None, r_decorate = PNone,
         r_lookup = None, r_shell_transform = PNone \<rparr> =
       Inr (PDict [(''is'', PDict [(''statusCode'', PInt 0), (''_mode'', PStr ''text'')]),
                   (''_behaviors'', PDict [])])"
  using Response_is_block [where X = sample_externals and b = "PStr []"
      and r = "\<lparr> r_body = Other (PStr []), r_status_code = PInt 0, r_wait = PNone,
                 r_repeat = PNone, r_headers = PDict [], r_mode = TEXT, r_copy = None,
                 r_decorate = PNone, r_lookup = None, r_shell_transform = PNone \<rparr>"]
  by (simp add: Response_body_def Response_as_structure_def Response_is_structure_def
        Response_behaviors_structure_def add_if_true_def truthy_list_def)

lemma Response_behaviors_structure_dict:
  "\<exists>behaviors. Response_behaviors_structure X r = PDict behaviors
     \<and> map_of behaviors ''wait'' = (if truthy (r_wait r) then Some (r_wait r) else None)
     \<and> map_of behaviors ''repeat'' = (if truthy (r_repeat r) then Some (r_repeat r) else None)
     \<and> map_of behaviors ''decorate'' =
           (if truthy (r_decorate r) then Some (r_decorate r) else None)
     \<and> map_of behaviors ''shellTransform'' =
           (if truthy (r_shell_transform r) then Some (r_shell_transform r) else None)
     \<and> map_of behaviors ''copy'' =
           (if truthy_list (r_copy r)
            then Some (PList (map (Copy_as_structure X) (the (r_copy r)))) else None)
     \<and> map_of behaviors ''lookup'' =
           (if truthy_list (r_lookup r)
            then Some (PList (map (Lookup_as_structure X) (the (r_lookup r)))) else None)"
  by (simp add: Response_behaviors_structure_def Let_def map_of_add_if_true update_conv')

lemma Proxy_as_structure_Inr:
  assumes "p_predicate_generators p = Some pgs"
  shows "Proxy_as_structure X p =
           Inr (PDict ((''proxy'',
                  PDict (add_if_true (add_if_true
                    [(''to'', (case p_to p of Furl u \<Rightarrow> PStr (furl_url X u) | NotFurl v \<Rightarrow> v)),
                     (''mode'', PStr (Proxy_Mode_value (p_mode p)))]
                    ''injectHeaders'' (p_inject_headers p))
                    ''predicateGenerators'' (PList (map PredicateGenerator_as_structure pgs))))
                # (if truthy (p_wait p)
                   then [(''_behaviors'', PDict [(''wait'', p_wait p)])] else [])))"
  using assms by (simp add: Proxy_as_structure_def Let_def)

text \<open>
  C3. Omission law: an optional field whose value is falsy (\<^verbatim>\<open>None\<close>, \<^verbatim>\<open>False\<close>, \<^verbatim>\<open>0\<close>,
  the empty string or an empty collection) leaves no key in the output of
  \<^verbatim>\<open>as_structure\<close>, for every entity: \<^verbatim>\<open>body\<close>, \<^verbatim>\<open>headers\<close>, \<^verbatim>\<open>wait\<close>,
  \<^verbatim>\<open>repeat\<close>, \<^verbatim>\<open>decorate\<close>, \<^verbatim>\<open>shellTransform\<close>, \<^verbatim>\<open>copy\<close> and \<^verbatim>\<open>lookup\<close> of a
  \<^verbatim>\<open>Response\<close> (whenever its body renders, so that \<^verbatim>\<open>as_structure\<close> returns);
  \<^verbatim>\<open>injectHeaders\<close>, \<^verbatim>\<open>predicateGenerators\<close> and the \<^verbatim>\<open>_behaviors\<close> block with
  \<^verbatim>\<open>wait\<close> of a \<^verbatim>\<open>Proxy\<close>; \<^verbatim>\<open>path\<close> and \<^verbatim>\<open>query\<close> of a \<^verbatim>\<open>PredicateGenerator\<close>.
\<close>

theorem omission_of_falsy_fields:
  "(Response_body X r = Inr b \<longrightarrow>
      (\<exists>is_structure behaviors.
         Response_as_structure X r =
           Inr (PDict [(''is'', PDict is_structure), (''_behaviors'', PDict behaviors)])
         \<and> (\<not> truthy b \<longrightarrow> map_of is_structure ''body'' = None)
         \<and> (\<not> truthy (r_headers r) \<longrightarrow> map_of is_structure ''headers'' = None)
         \<and> (\<not> truthy (r_wait r) \<longrightarrow> map_of behaviors ''wait'' = None)
         \<and> (\<not> truthy (r_repeat r) \<longrightarrow> map_of behaviors ''repeat'' = None)
         \<and> (\<not> truthy (r_decorate r) \<longrightarrow> map_of behaviors ''decorate'' = None)
         \<and> (\<not> truthy (r_shell_transform r) \<longrightarrow> map_of behaviors ''shellTransform'' = None)
         \<and> (\<not> truthy_list (r_copy r) \<longrightarrow> map_of behaviors ''copy'' = None)
         \<and> (\<not> truthy_list (r_lookup r) \<longrightarrow> map_of behaviors ''lookup'' = None)))
   \<and> (p_predicate_generators p = Some pgs \<longrightarrow>
        (\<exists>proxy response.
           Proxy_as_structure X p = Inr (PDict response)
           \<and> map_of response ''proxy'' = Some (PDict proxy)
           \<and> (\<not> truthy (p_inject_headers p) \<longrightarrow> map_of proxy ''injectHeaders'' = None)
           \<and> (pgs = [] \<longrightarrow> map_of proxy ''predicateGenerators'' = None)
           \<and> (\<not> truthy (p_wait p) \<longrightarrow> map_of response ''_behaviors'' = None)))
   \<and> (\<exists>matches.
         PredicateGenerator_as_structure g =
           PDict [(''caseSensitive'', pg_case_sensitive g), (''matches'', PDict matches)]
         \<and> (\<not> truthy (pg_path g) \<longrightarrow> map_of matches ''path'' = None)
         \<and> (\<not> truthy (pg_query g) \<longrightarrow> map_of matches ''query'' = None))"
proof (intro conjI impI)
  assume b: "Response_body X r = Inr b"
  obtain behaviors where beh: "Response_behaviors_structure X r = PDict behaviors"
    and "map_of behaviors ''wait'' = (if truthy (r_wait r) then Some (r_wait r) else None)"
    and "map_of behaviors ''repeat'' = (if truthy (r_repeat r) then Some (r_repeat r) else None)"
    and "map_of behaviors ''decorate'' =
           (if truthy (r_decorate r) then Some (r_decorate r) else None)"
    and "map_of behaviors ''shellTransform'' =
           (if truthy (r_shell_transform r) then Some (r_shell_transform r) else None)"
    and "map_of behaviors ''copy'' =
           (if truthy_list (r_copy r)
            then Some (PList (map (Copy_as_structure X) (the (r_copy r)))) else None)"
    and "map_of behaviors ''lookup'' =
           (if truthy_list (r_lookup r)
            then Some (PList (map (Lookup_as_structure X) (the (r_lookup r)))) else None)"
    using Response_behaviors_structure_dict [of X r] by (elim exE conjE)
  then show "\<exists>is_structure behaviors.
         Response_as_structure X r =
           Inr (PDict [(''is'', PDict is_structure), (''_behaviors'', PDict behaviors)])
         \<and> (\<not> truthy b \<longrightarrow> map_of is_structure ''body'' = None)
         \<and> (\<not> truthy (r_headers r) \<longrightarrow> map_of is_structure ''headers'' = None)
         \<and> (\<not> truthy (r_wait r) \<longrightarrow> map_of behaviors ''wait'' = None)
         \<and> (\<not> truthy (r_repeat r) \<longrightarrow> map_of behaviors ''repeat'' = None)
         \<and> (\<not> truthy (r_decorate r) \<longrightarrow> map_of behaviors ''decorate'' = None)
         \<and> (\<not> truthy (r_shell_transform r) \<longrightarrow> map_of behaviors ''shellTransform'' = None)
         \<and> (\<not> truthy_list (r_copy r) \<longrightarrow> map_of behaviors ''copy'' = None)
         \<and> (\<not> truthy_list (r_lookup r) \<longrightarrow> map_of behaviors ''lookup'' = None)"
    by (intro exI [where x = "add_if_true (add_if_true
                  [(''statusCode'', r_status_code r),
                   (''_mode'', PStr (Response_Mode_value (r_mode r)))]
                  ''body'' b) ''headers'' (r_headers r)"] exI [where x = behaviors])
       (simp add: Response_as_structure_Inr [OF b] map_of_add_if_true)
next
  assume pg: "p_predicate_generators p = Some pgs"
  show "\<exists>proxy response.
           Proxy_as_structure X p = Inr (PDict response)
           \<and> map_of response ''proxy'' = Some (PDict proxy)
           \<and> (\<not> truthy (p_inject_headers p) \<longrightarrow> map_of proxy ''injectHeaders'' = None)
           \<and> (pgs = [] \<longrightarrow> map_of proxy ''predicateGenerators'' = None)
           \<and> (\<not> truthy (p_wait p) \<longrightarrow> map_of response ''_behaviors'' = None)"
    by (intro exI [where x = "add_if_true (add_if_true
                    [(''to'', (case p_to p of Furl u \<Rightarrow> PStr (furl_url X u) | NotFurl v \<Rightarrow> v)),
                     (''mode'', PStr (Proxy_Mode_value (p_mode p)))]
                    ''injectHeaders'' (p_inject_headers p))
                    ''predicateGenerators'' (PList (map PredicateGenerator_as_structure pgs))"]
          exI [where x = "(''proxy'',
                  PDict (add_if_true (add_if_true
                    [(''to'', (case p_to p of Furl u \<Rightarrow> PStr (furl_url X u) | NotFurl v \<Rightarrow> v)),
                     (''mode'', PStr (Proxy_Mode_value (p_mode p)))]
                    ''injectHeaders'' (p_inject_headers p))
                    ''predicateGenerators'' (PList (map PredicateGenerator_as_structure pgs))))
                # (if truthy (p_wait p)
                   then [(''_behaviors'', PDict [(''wait'', p_wait p)])] else [])"])
       (simp add: Proxy_as_structure_Inr [OF pg] map_of_add_if_true)
next
  show "\<exists>matches.
         PredicateGenerator_as_structure g =
           PDict [(''caseSensitive'', pg_case_sensitive g), (''matches'', PDict matches)]
         \<and> (\<not> truthy (pg_path g) \<longrightarrow> map_of matches ''path'' = None)
         \<and> (\<not> truthy (pg_query g) \<longrightarrow> map_of matches ''query'' = None)"
    by (intro exI [where x = "add_if_true (add_if_true [] ''path'' (pg_path g))
                                ''query'' (pg_query g)"])
       (simp add: PredicateGenerator_as_structure_def Let_def map_of_add_if_true)
qed

text \<open>
  A response, a proxy and a generator whose optional attributes are all falsy
  (\<^verbatim>\<open>wait=0\<close>, \<^verbatim>\<open>headers={}\<close>, \<^verbatim>\<open>copy=[]\<close>, \<^verbatim>\<open>path=False\<close> and so on) are emitted without
  the corresponding keys.
\<close>

theorem omission_of_falsy_fields_witness:
  "Response_as_structure sample_externals
     \<lparr> r_body = Other (PStr []), r_status_code = PInt 200, r_wait = PInt 0, r_repeat = PNone,
       r_headers = PDict [], r_mode = TEXT, r_copy = Some [], r_decorate = PStr [],
       r_lookup = None, r_shell_transform = PList [] \<rparr> =
     Inr (PDict [(''is'', PDict [(''statusCode'', PInt 200), (''_mode'', PStr ''text'')]),
                 (''_behaviors'', PDict [])])
   \<and> Proxy_as_structure sample_externals
       \<lparr> p_to = NotFurl (PStr ''http://origin''), p_wait = PInt 0,
         p_inject_headers = PDict [], p_mode = ONCE, p_predicate_generators = Some [] \<rparr> =
     Inr (PDict [(''proxy'', PDict [(''to'', PStr ''http://origin''),
                                   (''mode'', PStr ''proxyOnce'')])])
   \<and> PredicateGenerator_as_structure
       \<lparr> pg_path = PBool False, pg_query = PDict [], pg_operator = ''EQUALS'',
         pg_case_sensitive = PBool True \<rparr> =
     PDict [(''caseSensitive'', PBool True), (''matches'', PDict [])]"
  using omission_of_falsy_fields [where X = sample_externals and b = "PStr []"
      and r = "\<lparr> r_body = Other (PStr []), r_status_code = PInt 200, r_wait = PInt 0,
                 r_repeat = PNone, r_headers = PDict [], r_mode = TEXT, r_copy = Some [],
                 r_decorate = PStr [], r_lookup = None, r_shell_transform = PList [] \<rparr>"
      and p = "\<lparr> p_to = NotFurl (PStr ''http://origin''), p_wait = PInt 0,
                 p_inject_headers = PDict [], p_mode = ONCE,
                 p_predicate_generators = Some [] \<rparr>"
      and pgs = "[]"
      and g = "\<lparr> pg_path = PBool False, pg_query = PDict [], pg_operator = ''EQUALS'',
                 pg_case_sensitive = PBool True \<rparr>"]
  by (simp add: Response_body_def Response_as_structure_def Response_is_structure_def
        Response_behaviors_structure_def Proxy_as_structure_def
        PredicateGenerator_as_structure_def add_if_true_def truthy_list_def)

section \<open>Round trips\<close>

lemma None_or_truthy_falsy: "None_or_truthy v \<Longrightarrow> \<not> truthy v \<Longrightarrow> v = PNone"
  by (simp add: None_or_truthy_def)

lemma traverse_roundtrip:
  "list_all (\<lambda>x. from_structure (as_structure x) = Inr x) xs \<Longrightarrow>
   traverse from_structure (map as_structure xs) = Inr xs"
  by (induction xs) simp_all

lemma PredicateGenerator_roundtrip:
  assumes "pg_operator g = Operator_EQUALS X"
    and "None_or_truthy (pg_path g)" and "None_or_truthy (pg_query g)"
  shows "PredicateGenerator_from_structure X (PredicateGenerator_as_structure g) = Inr g"
proof -
  let ?m = "add_if_true (add_if_true [] ''path'' (pg_path g)) ''query'' (pg_query g)"
  let ?d = "[(''caseSensitive'', pg_case_sensitive g), (''matches'', PDict ?m)]"
  have as: "PredicateGenerator_as_structure g = PDict ?d"
    by (simp add: PredicateGenerator_as_structure_def Let_def)
  have m: "map_of ?d ''matches'' = Some (PDict ?m)" by simp
  have path: "(case map_of ?m ''path'' of None \<Rightarrow> PNone | Some v \<Rightarrow> v) = pg_path g"
    using None_or_truthy_falsy [OF assms(2)] by (auto simp add: map_of_add_if_true)
  have query: "(case map_of ?m ''query'' of None \<Rightarrow> PNone | Some v \<Rightarrow> v) = pg_query g"
    using None_or_truthy_falsy [OF assms(3)] by (auto simp add: map_of_add_if_true)
  have op: "map_of ?d ''operator'' = None" by simp
  have cs: "map_of ?d ''caseSensitive'' = Some (pg_case_sensitive g)" by simp
  show ?thesis
    unfolding as PredicateGenerator_from_structure_dict [OF m] path query op cs
    using assms(1) by simp
qed

text \<open>\<^verbatim>\<open>Proxy.from_structure\<close> on a document that it accepts.\<close>

lemma Proxy_from_structure_doc:
  assumes proxy: "map_of d ''proxy'' = Some (PDict ps)"
    and to: "map_of ps ''to'' = Some to_v" and furl: "furl X to_v = Inr u"
    and mode: "map_of ps ''mode'' = Some mode_v" and call: "Proxy_Mode_call mode_v = Inr m"
    and pgs: "(case map_of ps ''predicateGenerators'' of
                 None \<Rightarrow> Inr []
               | Some v \<Rightarrow> and_then (py_iter v) (traverse (PredicateGenerator_from_structure X)))
              = Inr pgs"
    and wait: "py_get (case map_of d ''_behaviors'' of None \<Rightarrow> PDict [] | Some b \<Rightarrow> b)
                 ''wait'' PNone = Inr wait"
  shows "Proxy_from_structure X (PDict d) =
           Inr \<lparr> p_to = Furl u,
                 p_wait = (if truthy wait then wait else PNone),
                 p_inject_headers = (case map_of ps ''injectHeaders'' of
                                       None \<Rightarrow> PNone | Some v \<Rightarrow> v),
                 p_mode = m,
                 p_predicate_generators = Some pgs \<rparr>"
proof -
  have 1: "py_getitem (PDict d) ''proxy'' = Inr (PDict ps)" using proxy by simp
  have 2: "py_getitem (PDict ps) ''to'' = Inr to_v" using to by simp
  have 4: "py_contains ''injectHeaders'' (PDict ps) = Inr (map_of ps ''injectHeaders'' \<noteq> None)"
    by simp
  have 5: "(if map_of ps ''injectHeaders'' \<noteq> None then py_getitem (PDict ps) ''injectHeaders''
            else Inr PNone) =
           Inr (case map_of ps ''injectHeaders'' of None \<Rightarrow> PNone | Some v \<Rightarrow> v)"
    by (cases "map_of ps ''injectHeaders''") simp_all
  have 6: "py_getitem (PDict ps) ''mode'' = Inr mode_v" using mode by simp
  have 8: "py_contains ''predicateGenerators'' (PDict ps) =
             Inr (map_of ps ''predicateGenerators'' \<noteq> None)"
    by simp
  have 9: "(if map_of ps ''predicateGenerators'' \<noteq> None
            then and_then (py_getitem (PDict ps) ''predicateGenerators'') (\<lambda>pgs_v.
                 and_then (py_iter pgs_v) (\<lambda>pgs.
                 and_then (traverse (PredicateGenerator_from_structure X) pgs) (\<lambda>pgs.
                 Inr (Some pgs))))
            else Inr None) =
           Inr (if map_of ps ''predicateGenerators'' \<noteq> None then Some pgs else None)"
  proof (cases "map_of ps ''predicateGenerators''")
    case None
    then show ?thesis by simp
  next
    case (Some v)
    with pgs obtain xs where "py_iter v = Inr xs"
      and "traverse (PredicateGenerator_from_structure X) xs = Inr pgs"
      by (auto elim: and_thenE)
    with Some show ?thesis by simp
  qed
  have stored: "p_predicate_generators
          (Proxy_init (Furl u) None (Some i) (Some m)
             (Some (if map_of ps ''predicateGenerators'' \<noteq> None then Some pgs else None)))
        = Some pgs" for i
  proof (cases "map_of ps ''predicateGenerators''")
    case None
    with pgs show ?thesis by (simp add: Proxy_init_def arg_or_def)
  next
    case (Some v)
    then show ?thesis by (simp add: Proxy_init_def arg_or_def)
  qed
  have 10: "py_get (PDict d) ''_behaviors'' (PDict []) =
              Inr (case map_of d ''_behaviors'' of None \<Rightarrow> PDict [] | Some b \<Rightarrow> b)"
    by simp
  have init: "Proxy_init (Furl u) None (Some i) (Some m)
             (Some (if map_of ps ''predicateGenerators'' \<noteq> None then Some pgs else None))
        = \<lparr> p_to = Furl u, p_wait = PNone, p_inject_headers = i, p_mode = m,
            p_predicate_generators = Some pgs \<rparr>" for i
    using stored [of i] by (simp add: Proxy_init_def arg_or_def)
  show ?thesis
    unfolding Proxy_from_structure_def 1 and_then_Inr 2 furl 4 5 6 call 8 9 Let_def 10 wait init
    by simp
qed

lemma Proxy_Mode_call_value: "Proxy_Mode_call (PStr (Proxy_Mode_value m)) = Inr m"
  by (cases m) (simp_all add: Proxy_Mode_call_def)

lemma Proxy_roundtrip:
  assumes pgs: "p_predicate_generators p = Some pgs"
    and ok: "list_all (\<lambda>g. pg_operator g = Operator_EQUALS X \<and> None_or_truthy (pg_path g)
                          \<and> None_or_truthy (pg_query g)) pgs"
    and wait: "None_or_truthy (p_wait p)"
    and inject_headers: "None_or_truthy (p_inject_headers p)"
    and furl: "furl X (case p_to p of Furl u \<Rightarrow> PStr (furl_url X u) | NotFurl v \<Rightarrow> v) = Inr u"
  shows "\<exists>s. Proxy_as_structure X p = Inr s
             \<and> Proxy_from_structure X s = Inr (p\<lparr>p_to := Furl u\<rparr>)"
proof -
  let ?to = "case p_to p of Furl u \<Rightarrow> PStr (furl_url X u) | NotFurl v \<Rightarrow> v"
  let ?ps = "add_if_true (add_if_true
               [(''to'', ?to), (''mode'', PStr (Proxy_Mode_value (p_mode p)))]
               ''injectHeaders'' (p_inject_headers p))
               ''predicateGenerators'' (PList (map PredicateGenerator_as_structure pgs))"
  let ?d = "(''proxy'', PDict ?ps)
              # (if truthy (p_wait p) then [(''_behaviors'', PDict [(''wait'', p_wait p)])] else [])"
  have as: "Proxy_as_structure X p = Inr (PDict ?d)"
    by (rule Proxy_as_structure_Inr [OF pgs])
  have proxy: "map_of ?d ''proxy'' = Some (PDict ?ps)" by simp
  have to: "map_of ?ps ''to'' = Some ?to" by (simp add: map_of_add_if_true)
  have mode: "map_of ?ps ''mode'' = Some (PStr (Proxy_Mode_value (p_mode p)))"
    by (simp add: map_of_add_if_true)
  have each: "list_all (\<lambda>g. PredicateGenerator_from_structure X
                              (PredicateGenerator_as_structure g) = Inr g) pgs"
    using ok by (induction pgs) (simp_all add: PredicateGenerator_roundtrip)
  have gens: "(case map_of ?ps ''predicateGenerators'' of
                 None \<Rightarrow> Inr []
               | Some v \<Rightarrow> and_then (py_iter v) (traverse (PredicateGenerator_from_structure X)))
              = Inr pgs"
  proof (cases "pgs = []")
    case True
    then show ?thesis by (simp add: map_of_add_if_true)
  next
    case False
    from each have "traverse (PredicateGenerator_from_structure X)
                      (map PredicateGenerator_as_structure pgs) = Inr pgs"
      by (rule traverse_roundtrip
            [where from_structure = "PredicateGenerator_from_structure X"
               and as_structure = PredicateGenerator_as_structure])
    with False show ?thesis by (simp add: map_of_add_if_true)
  qed
  have w: "py_get (case map_of ?d ''_behaviors'' of None \<Rightarrow> PDict [] | Some b \<Rightarrow> b)
             ''wait'' PNone = Inr (p_wait p)"
    using None_or_truthy_falsy [OF wait] by (cases "truthy (p_wait p)") simp_all
  have ih: "(case map_of ?ps ''injectHeaders'' of None \<Rightarrow> PNone | Some v \<Rightarrow> v)
              = p_inject_headers p"
    using None_or_truthy_falsy [OF inject_headers]
    by (cases "truthy (p_inject_headers p)") (simp_all add: map_of_add_if_true)
  have wv: "(if truthy (p_wait p) then p_wait p else PNone) = p_wait p"
    using None_or_truthy_falsy [OF wait] by (cases "truthy (p_wait p)") simp_all
  have "Proxy_from_structure X (PDict ?d) =
          Inr \<lparr> p_to = Furl u, p_wait = p_wait p, p_inject_headers = p_inject_headers p,
                p_mode = p_mode p, p_predicate_generators = Some pgs \<rparr>"
    unfolding Proxy_from_structure_doc [OF proxy to furl mode Proxy_Mode_call_value gens w]
      ih wv by (rule refl)
  also have "\<lparr> p_to = Furl u, p_wait = p_wait p, p_inject_headers = p_inject_headers p,
               p_mode = p_mode p, p_predicate_generators = Some pgs \<rparr> = p\<lparr>p_to := Furl u\<rparr>"
    using pgs by (cases p) simp
  finally show ?thesis using as by (intro exI [where x = "PDict ?d"] conjI)
qed

text \<open>\<^verbatim>\<open>Response.from_structure\<close> on a document with both blocks that it accepts.\<close>

lemma Response_from_structure_doc:
  fixes X :: "('c, 'l, 'o, 'u, 'x) externals"
  assumes mode: "map_of is_structure ''_mode'' = Some mode_v"
    and call: "Response_Mode_call mode_v = Inr mode"
    and copy: "(case map_of behaviors ''copy'' of
                  None \<Rightarrow> Inr None
                | Some v \<Rightarrow> and_then (py_iter v) (\<lambda>cs.
                            and_then (traverse (Copy_from_structure X) cs) (\<lambda>cs.
                            Inr (Some cs)))) = Inr copy"
    and lookup: "(case map_of behaviors ''lookup'' of
                    None \<Rightarrow> Inr None
                  | Some v \<Rightarrow> and_then (py_iter v) (\<lambda>ls.
                              and_then (traverse (Lookup_from_structure X) ls) (\<lambda>ls.
                              Inr (Some ls)))) = Inr lookup"
  shows "Response_from_structure X
           (PDict [(''is'', PDict is_structure), (''_behaviors'', PDict behaviors)]) =
         Inr \<lparr> r_body = (case map_of is_structure ''body'' of
                           None \<Rightarrow> Other (PStr []) | Some v \<Rightarrow> Other v),
               r_status_code = (case map_of is_structure ''statusCode'' of
                                  None \<Rightarrow> PInt 200 | Some v \<Rightarrow> v),
               r_wait = (case map_of behaviors ''wait'' of None \<Rightarrow> PNone | Some v \<Rightarrow> v),
               r_repeat = (case map_of behaviors ''repeat'' of None \<Rightarrow> PNone | Some v \<Rightarrow> v),
               r_headers = (case map_of is_structure ''headers'' of
                              None \<Rightarrow> PNone | Some v \<Rightarrow> v),
               r_mode = mode,
               r_copy = copy,
               r_decorate = (case map_of behaviors ''decorate'' of
                               None \<Rightarrow> PNone | Some v \<Rightarrow> v),
               r_lookup = lookup,
               r_shell_transform = (case map_of behaviors ''shellTransform'' of
                                      None \<Rightarrow> PNone | Some v \<Rightarrow> v) \<rparr>"
proof -
  let ?d = "[(''is'', PDict is_structure), (''_behaviors'', PDict behaviors)]"
  have "is": "map_of ?d ''is'' = Some (PDict is_structure)" by simp
  have beh: "py_get (PDict ?d) ''_behaviors'' (PDict []) = Inr (PDict behaviors)" by simp
  have c: "and_then (py_contains ''copy'' (PDict behaviors)) (\<lambda>has_copy.
           and_then (if has_copy
               then and_then (py_getitem (PDict behaviors) ''copy'') (\<lambda>cs_v.
                    and_then (py_iter cs_v) (\<lambda>cs.
                    and_then (traverse (Copy_from_structure X) cs) (\<lambda>cs.
                    Inr (response\<lparr>r_copy := Some cs\<rparr>))))
               else Inr response) k) =
           k (response\<lparr>r_copy := (case copy of None \<Rightarrow> r_copy response | Some cs \<Rightarrow> Some cs)\<rparr>)"
    for response :: "('c, 'l, 'x) Response" and k :: "('c, 'l, 'x) Response \<Rightarrow> error + 'z"
  proof (cases "map_of behaviors ''copy''")
    case None
    with copy show ?thesis by simp
  next
    case (Some v)
    with copy obtain xs cs where "py_iter v = Inr xs"
      and "traverse (Copy_from_structure X) xs = Inr cs" and "copy = Some cs"
      by (auto elim!: and_thenE)
    with Some show ?thesis by simp
  qed
  have l: "and_then (py_contains ''lookup'' (PDict behaviors)) (\<lambda>has_lookup.
           if has_lookup
           then and_then (py_getitem (PDict behaviors) ''lookup'') (\<lambda>ls_v.
                and_then (py_iter ls_v) (\<lambda>ls.
                and_then (traverse (Lookup_from_structure X) ls) (\<lambda>ls.
                Inr (response\<lparr>r_lookup := Some ls\<rparr>))))
           else Inr response) =
           Inr (response\<lparr>r_lookup := (case lookup of None \<Rightarrow> r_lookup response
                                         | Some ls \<Rightarrow> Some ls)\<rparr>)"
    for response :: "('c, 'l, 'x) Response"
  proof (cases "map_of behaviors ''lookup''")
    case None
    with lookup show ?thesis by simp
  next
    case (Some v)
    with lookup obtain xs ls where "py_iter v = Inr xs"
      and "traverse (Lookup_from_structure X) xs = Inr ls" and "lookup = Some ls"
      by (auto elim!: and_thenE)
    with Some show ?thesis by simp
  qed
  show ?thesis
    unfolding Response_from_structure_def Response_init_defaults and_then_Inr
      Response_fields_from_structure_dict [OF "is"] mode option.case call beh
      set_if_in_dict_dict c l
    by (cases copy; cases lookup) (simp_all split: option.split)
qed

lemma Response_Mode_call_value: "Response_Mode_call (PStr (Response_Mode_value m)) = Inr m"
  by (cases m) (simp_all add: Response_Mode_call_def)

lemma None_or_truthy_emitted:
  "None_or_truthy v \<Longrightarrow>
   (case (if truthy v then Some v else None) of None \<Rightarrow> PNone | Some x \<Rightarrow> x) = v"
  by (cases "truthy v") (simp_all add: None_or_truthy_def)

lemma None_or_roundtrips_emitted:
  fixes from_structure :: "pyval \<Rightarrow> error + 'a"
  assumes "None_or_roundtrips as_structure from_structure a"
  shows "(case (if truthy_list a then Some (PList (map as_structure (the a))) else None) of
            None \<Rightarrow> Inr None
          | Some v \<Rightarrow> and_then (py_iter v) (\<lambda>xs.
                      and_then (traverse from_structure xs) (\<lambda>xs.
                      Inr (Some xs)))) = Inr a"
proof (cases a)
  case None
  then show ?thesis by (simp add: truthy_list_def)
next
  case (Some xs)
  with assms have ne: "xs \<noteq> []"
    and each: "list_all (\<lambda>x. from_structure (as_structure x) = Inr x) xs"
    by (simp_all add: None_or_roundtrips_def)
  from each have "traverse from_structure (map as_structure xs) = Inr xs"
    by (rule traverse_roundtrip
          [where from_structure = from_structure and as_structure = as_structure])
  with Some ne show ?thesis by (simp add: truthy_list_def)
qed

lemma Response_roundtrip:
  fixes X :: "('c, 'l, 'o, 'u, 'x) externals"
  assumes body: "Response_body X r = Inr b"
    and body_ok: "truthy b \<or> b = PStr []"
    and wait: "None_or_truthy (r_wait r)"
    and repeat: "None_or_truthy (r_repeat r)"
    and headers: "None_or_truthy (r_headers r)"
    and decorate: "None_or_truthy (r_decorate r)"
    and shell_transform: "None_or_truthy (r_shell_transform r)"
    and copy: "None_or_roundtrips (Copy_as_structure X) (Copy_from_structure X) (r_copy r)"
    and lookup: "None_or_roundtrips (Lookup_as_structure X) (Lookup_from_structure X) (r_lookup r)"
  shows "\<exists>s. Response_as_structure X r = Inr s
             \<and> Response_from_structure X s = Inr (r\<lparr>r_body := Other b\<rparr>)"
proof -
  let ?is = "add_if_true (add_if_true
               [(''statusCode'', r_status_code r),
                (''_mode'', PStr (Response_Mode_value (r_mode r)))]
               ''body'' b) ''headers'' (r_headers r)"
  obtain behaviors where beh: "Response_behaviors_structure X r = PDict behaviors"
    and w: "map_of behaviors ''wait'' = (if truthy (r_wait r) then Some (r_wait r) else None)"
    and rp: "map_of behaviors ''repeat'' =
               (if truthy (r_repeat r) then Some (r_repeat r) else None)"
    and dc: "map_of behaviors ''decorate'' =
               (if truthy (r_decorate r) then Some (r_decorate r) else None)"
    and st: "map_of behaviors ''shellTransform'' =
               (if truthy (r_shell_transform r) then Some (r_shell_transform r) else None)"
    and cp: "map_of behaviors ''copy'' =
               (if truthy_list (r_copy r)
                then Some (PList (map (Copy_as_structure X) (the (r_copy r)))) else None)"
    and lk: "map_of behaviors ''lookup'' =
               (if truthy_list (r_lookup r)
                then Some (PList (map (Lookup_as_structure X) (the (r_lookup r)))) else None)"
    using Response_behaviors_structure_dict [of X r] by (elim exE conjE)
  have as: "Response_as_structure X r =
              Inr (PDict [(''is'', PDict ?is), (''_behaviors'', PDict behaviors)])"
    by (simp add: Response_as_structure_Inr [OF body] beh)
  have mode: "map_of ?is ''_mode'' = Some (PStr (Response_Mode_value (r_mode r)))"
    by (simp add: map_of_add_if_true)
  have sc: "map_of ?is ''statusCode'' = Some (r_status_code r)"
    by (simp add: map_of_add_if_true)
  have bd: "(case map_of ?is ''body'' of None \<Rightarrow> Other (PStr []) | Some v \<Rightarrow> Other v)
              = Other b"
    using body_ok by (cases "truthy b") (auto simp add: map_of_add_if_true)
  have hd: "(case map_of ?is ''headers'' of None \<Rightarrow> PNone | Some v \<Rightarrow> v) = r_headers r"
    using None_or_truthy_falsy [OF headers]
    by (cases "truthy (r_headers r)") (simp_all add: map_of_add_if_true)
  have "Response_from_structure X
          (PDict [(''is'', PDict ?is), (''_behaviors'', PDict behaviors)]) =
        Inr \<lparr> r_body = Other b, r_status_code = r_status_code r, r_wait = r_wait r,
              r_repeat = r_repeat r, r_headers = r_headers r, r_mode = r_mode r,
              r_copy = r_copy r, r_decorate = r_decorate r, r_lookup = r_lookup r,
              r_shell_transform = r_shell_transform r \<rparr>"
    unfolding Response_from_structure_doc [where X = X, OF mode Response_Mode_call_value
        None_or_roundtrips_emitted [OF copy, folded cp]
        None_or_roundtrips_emitted [OF lookup, folded lk]]
      bd hd sc w rp dc st option.case
      None_or_truthy_emitted [OF wait] None_or_truthy_emitted [OF repeat]
      None_or_truthy_emitted [OF decorate] None_or_truthy_emitted [OF shell_transform]
    by (rule refl)
  also have "\<lparr> r_body = Other b, r_status_code = r_status_code r, r_wait = r_wait r,
               r_repeat = r_repeat r, r_headers = r_headers r, r_mode = r_mode r,
               r_copy = r_copy r, r_decorate = r_decorate r, r_lookup = r_lookup r,
               r_shell_transform = r_shell_transform r \<rparr> = r\<lparr>r_body := Other b\<rparr>"
    by (cases r) simp
  finally show ?thesis
    using as
    by (intro exI [where x = "PDict [(''is'', PDict ?is), (''_behaviors'', PDict behaviors)]"]
          conjI)
qed

text \<open>
  C2 (as amended). \<^verbatim>\<open>from_structure(x.as_structure())\<close> returns a value equal to \<open>x\<close>:
  for every \<^verbatim>\<open>TcpResponse\<close> and \<^verbatim>\<open>InjectionResponse\<close>; for every
  \<^verbatim>\<open>PredicateGenerator\<close> whose operator is \<^verbatim>\<open>EQUALS\<close> and whose \<^verbatim>\<open>path\<close> and
  \<^verbatim>\<open>query\<close> are each \<^verbatim>\<open>None\<close> or truthy (\<^verbatim>\<open>case_sensitive\<close> comes back whatever its
  value); for every \<^verbatim>\<open>Proxy\<close> whose \<^verbatim>\<open>predicate_generators\<close> is a list of such
  generators, whose \<^verbatim>\<open>wait\<close> and \<^verbatim>\<open>inject_headers\<close> are each \<^verbatim>\<open>None\<close> or truthy and
  whose emitted URL \<^verbatim>\<open>furl\<close> accepts, \<^verbatim>\<open>to\<close> coming back as the \<^verbatim>\<open>furl\<close> object built
  from that URL; for every \<^verbatim>\<open>Response\<close> whose \<^verbatim>\<open>wait\<close>, \<^verbatim>\<open>repeat\<close>, \<^verbatim>\<open>headers\<close>,
  \<^verbatim>\<open>decorate\<close> and \<^verbatim>\<open>shell_transform\<close> are each \<^verbatim>\<open>None\<close> or truthy, whose body
  renders to a truthy value or to the empty string (the body comes back as rendered), and
  whose \<^verbatim>\<open>copy\<close> and \<^verbatim>\<open>lookup\<close> are each \<^verbatim>\<open>None\<close> or a non-empty list of objects
  that are parsed back from their own structures.
\<close>

theorem roundtrip:
  fixes X :: "('c, 'l, 'o, 'u, 'x) externals"
  shows
  "TcpResponse_from_structure (TcpResponse_as_structure t) = Inr t
   \<and> InjectionResponse_from_structure (InjectionResponse_as_structure i) = Inr i
   \<and> (pg_operator g = Operator_EQUALS X \<and> None_or_truthy (pg_path g)
        \<and> None_or_truthy (pg_query g) \<longrightarrow>
      PredicateGenerator_from_structure X (PredicateGenerator_as_structure g) = Inr g)
   \<and> (p_predicate_generators p = Some pgs
        \<and> list_all (\<lambda>g. pg_operator g = Operator_EQUALS X \<and> None_or_truthy (pg_path g)
                         \<and> None_or_truthy (pg_query g)) pgs
        \<and> None_or_truthy (p_wait p) \<and> None_or_truthy (p_inject_headers p)
        \<and> furl X (case p_to p of Furl u \<Rightarrow> PStr (furl_url X u) | NotFurl v \<Rightarrow> v) = Inr u
        \<longrightarrow>
      (\<exists>s. Proxy_as_structure X p = Inr s
          \<and> Proxy_from_structure X s = Inr (p\<lparr>p_to := Furl u\<rparr>)))
   \<and> (Response_body X r = Inr b \<and> (truthy b \<or> b = PStr [])
        \<and> None_or_truthy (r_wait r) \<and> None_or_truthy (r_repeat r)
        \<and> None_or_truthy (r_headers r) \<and> None_or_truthy (r_decorate r)
        \<and> None_or_truthy (r_shell_transform r)
        \<and> None_or_roundtrips (Copy_as_structure X) (Copy_from_structure X) (r_copy r)
        \<and> None_or_roundtrips (Lookup_as_structure X) (Lookup_from_structure X) (r_lookup r)
        \<longrightarrow>
      (\<exists>s. Response_as_structure X r = Inr s
          \<and> Response_from_structure X s = Inr (r\<lparr>r_body := Other b\<rparr>)))"
proof (intro conjI impI)
  show "TcpResponse_from_structure (TcpResponse_as_structure t) = Inr t"
    by (simp add: TcpResponse_from_structure_def TcpResponse_as_structure_def)
  show "InjectionResponse_from_structure (InjectionResponse_as_structure i) = Inr i"
    by (simp add: InjectionResponse_from_structure_def InjectionResponse_as_structure_def)
next
  assume "pg_operator g = Operator_EQUALS X \<and> None_or_truthy (pg_path g)
        \<and> None_or_truthy (pg_query g)"
  then show "PredicateGenerator_from_structure X (PredicateGenerator_as_structure g) = Inr g"
    by (simp add: PredicateGenerator_roundtrip)
next
  assume a: "p_predicate_generators p = Some pgs
        \<and> list_all (\<lambda>g. pg_operator g = Operator_EQUALS X \<and> None_or_truthy (pg_path g)
                         \<and> None_or_truthy (pg_query g)) pgs
        \<and> None_or_truthy (p_wait p) \<and> None_or_truthy (p_inject_headers p)
        \<and> furl X (case p_to p of Furl u \<Rightarrow> PStr (furl_url X u) | NotFurl v \<Rightarrow> v) = Inr u"
  then have 1: "p_predicate_generators p = Some pgs"
    and 2: "list_all (\<lambda>g. pg_operator g = Operator_EQUALS X \<and> None_or_truthy (pg_path g)
                         \<and> None_or_truthy (pg_query g)) pgs"
    and 3: "None_or_truthy (p_wait p)" and 4: "None_or_truthy (p_inject_headers p)"
    and 5: "furl X (case p_to p of Furl u \<Rightarrow> PStr (furl_url X u) | NotFurl v \<Rightarrow> v) = Inr u"
    by simp_all
  show "\<exists>s. Proxy_as_structure X p = Inr s
          \<and> Proxy_from_structure X s = Inr (p\<lparr>p_to := Furl u\<rparr>)"
    by (rule Proxy_roundtrip [OF 1 2 3 4 5])
next
  assume a: "Response_body X r = Inr b \<and> (truthy b \<or> b = PStr [])
        \<and> None_or_truthy (r_wait r) \<and> None_or_truthy (r_repeat r)
        \<and> None_or_truthy (r_headers r) \<and> None_or_truthy (r_decorate r)
        \<and> None_or_truthy (r_shell_transform r)
        \<and> None_or_roundtrips (Copy_as_structure X) (Copy_from_structure X) (r_copy r)
        \<and> None_or_roundtrips (Lookup_as_structure X) (Lookup_from_structure X) (r_lookup r)"
  then have 1: "Response_body X r = Inr b" and 2: "truthy b \<or> b = PStr []"
    and 3: "None_or_truthy (r_wait r)" and 4: "None_or_truthy (r_repeat r)"
    and 5: "None_or_truthy (r_headers r)" and 6: "None_or_truthy (r_decorate r)"
    and 7: "None_or_truthy (r_shell_transform r)"
    and 8: "None_or_roundtrips (Copy_as_structure X) (Copy_from_structure X) (r_copy r)"
    and 9: "None_or_roundtrips (Lookup_as_structure X) (Lookup_from_structure X) (r_lookup r)"
    by simp_all
  show "\<exists>s. Response_as_structure X r = Inr s
          \<and> Response_from_structure X s = Inr (r\<lparr>r_body := Other b\<rparr>)"
    by (rule Response_roundtrip [OF 1 2 3 4 5 6 7 8 9])
qed

text \<open>
  A TCP response, an injection, a generator that matches on the path, a proxy with a
  latency and that generator, and a binary response with a body, headers, a latency and a
  copy behavior all come back from their structures.
\<close>

theorem roundtrip_witness:
  "TcpResponse_from_structure (PDict [(''is'', PDict [(''data'', PStr ''ABC'')])]) =
     Inr \<lparr> t_data = PStr ''ABC'' \<rparr>
   \<and> PredicateGenerator_from_structure sample_externals
       (PDict [(''caseSensitive'', PBool False), (''matches'', PDict [(''path'', PBool True)])]) =
     Inr \<lparr> pg_path = PBool True, pg_query = PNone, pg_operator = ''EQUALS'',
           pg_case_sensitive = PBool False \<rparr>
   \<and> Proxy_from_structure sample_externals
       (PDict [(''proxy'',
                PDict [(''to'', PStr ''http://origin''), (''mode'', PStr ''proxyAlways''),
                       (''predicateGenerators'',
                        PList [PDict [(''caseSensitive'', PBool False),
                                      (''matches'', PDict [(''path'', PBool True)])]])]),
               (''_behaviors'', PDict [(''wait'', PInt 100)])]) =
     Inr \<lparr> p_to = Furl ''http://origin'', p_wait = PInt 100, p_inject_headers = PNone,
           p_mode = ALWAYS,
           p_predicate_generators =
             Some [\<lparr> pg_path = PBool True, pg_query = PNone, pg_operator = ''EQUALS'',
                     pg_case_sensitive = PBool False \<rparr>] \<rparr>
   \<and> Response_from_structure sample_externals
       (PDict [(''is'', PDict [(''statusCode'', PInt 200), (''_mode'', PStr ''binary''),
                              (''body'', PStr ''hi''),
                              (''headers'', PDict [(''X'', PStr ''y'')])]),
               (''_behaviors'', PDict [(''wait'', PInt 5), (''copy'', PList [PStr ''c''])])]) =
     Inr \<lparr> r_body = Other (PStr ''hi''), r_status_code = PInt 200, r_wait = PInt 5,
           r_repeat = PNone, r_headers = PDict [(''X'', PStr ''y'')], r_mode = BINARY,
           r_copy = Some [PStr ''c''], r_decorate = PNone, r_lookup = None,
           r_shell_transform = PNone \<rparr>"
  using roundtrip [where X = sample_externals
      and t = "\<lparr> t_data = PStr ''ABC'' \<rparr>"
      and i = "\<lparr> i_inject = PStr ''f'' \<rparr>"
      and g = "\<lparr> pg_path = PBool True, pg_query = PNone, pg_operator = ''EQUALS'',
                 pg_case_sensitive = PBool False \<rparr>"
      and p = "\<lparr> p_to = NotFurl (PStr ''http://origin''), p_wait = PInt 100,
                 p_inject_headers = PNone, p_mode = ALWAYS,
                 p_predicate_generators =
                   Some [\<lparr> pg_path = PBool True, pg_query = PNone, pg_operator = ''EQUALS'',
                           pg_case_sensitive = PBool False \<rparr>] \<rparr>"
      and pgs = "[\<lparr> pg_path = PBool True, pg_query = PNone, pg_operator = ''EQUALS'',
                    pg_case_sensitive = PBool False \<rparr>]"
      and u = "''http://origin''"
      and r = "\<lparr> r_body = Other (PStr ''hi''), r_status_code = PInt 200, r_wait = PInt 5,
                 r_repeat = PNone, r_headers = PDict [(''X'', PStr ''y'')], r_mode = BINARY,
                 r_copy = Some [PStr ''c''], r_decorate = PNone, r_lookup = None,
                 r_shell_transform = PNone \<rparr>"
      and b = "PStr ''hi''"]
  by (simp add: sample_externals_def None_or_truthy_def None_or_roundtrips_def
        TcpResponse_as_structure_def PredicateGenerator_as_structure_def
        Proxy_as_structure_def Response_as_structure_def Response_is_structure_def
        Response_behaviors_structure_def Response_body_def add_if_true_def truthy_list_def)

text \<open>
  The claim as stated fails on \<^verbatim>\<open>PredicateGenerator(path=True, query=None,
  operator=CONTAINS)\<close>: \<^verbatim>\<open>as_structure\<close> has no \<^verbatim>\<open>"operator"\<close> key, and the generator
  parsed back has the operator \<^verbatim>\<open>EQUALS\<close>. It fails on the default
  \<^verbatim>\<open>PredicateGenerator()\<close> too: its \<^verbatim>\<open>path\<close> and \<^verbatim>\<open>query\<close> are \<^verbatim>\<open>False\<close>, they are
  not emitted, and the generator parsed back has \<^verbatim>\<open>None\<close> for both.
\<close>

theorem roundtrip_counterexample:
  "PredicateGenerator_init sample_externals
       (Some (PBool True)) (Some PNone) (Some ''CONTAINS'') None =
     \<lparr> pg_path = PBool True, pg_query = PNone, pg_operator = ''CONTAINS'',
       pg_case_sensitive = PBool True \<rparr>
   \<and> PredicateGenerator_as_structure
       (PredicateGenerator_init sample_externals
          (Some (PBool True)) (Some PNone) (Some ''CONTAINS'') None) =
     PDict [(''caseSensitive'', PBool True), (''matches'', PDict [(''path'', PBool True)])]
   \<and> PredicateGenerator_from_structure sample_externals
       (PDict [(''caseSensitive'', PBool True), (''matches'', PDict [(''path'', PBool True)])]) =
     Inr \<lparr> pg_path = PBool True, pg_query = PNone, pg_operator = ''EQUALS'',
           pg_case_sensitive = PBool True \<rparr>
   \<and> PredicateGenerator_init sample_externals None None None None =
     \<lparr> pg_path = PBool False, pg_query = PBool False, pg_operator = ''EQUALS'',
       pg_case_sensitive = PBool True \<rparr>
   \<and> PredicateGenerator_from_structure sample_externals
       (PredicateGenerator_as_structure
          (PredicateGenerator_init sample_externals None None None None)) =
     Inr \<lparr> pg_path = PNone, pg_query = PNone, pg_operator = ''EQUALS'',
           pg_case_sensitive = PBool True \<rparr>
   \<and> PredicateGenerator_from_structure sample_externals
       (PredicateGenerator_as_structure
          (PredicateGenerator_init sample_externals None None None None)) \<noteq>
     Inr (PredicateGenerator_init sample_externals None None None None)"
  by (simp add: PredicateGenerator_from_structure_def PredicateGenerator_as_structure_def
        PredicateGenerator_init_def arg_or_def add_if_true_def sample_externals_def)

end
